(* ===== verification/Prelude.thy ===== *)
theory Prelude
  imports Complex_Main "HOL-Library.Sublist"
begin

text \<open>
  Shared vocabulary of the development: the Python run-time behaviour the
  monitoring agent and the report scripts rely on.  Python floats are
  modelled as \<open>real\<close> (rounding is not modelled), Python integers as \<open>int\<close>,
  Python strings as \<open>string\<close>.  An uncaught Python exception is a value
  \<open>Inl e\<close> of the sum type \<open>'a py_result\<close>.  The collection \<open>model_defs\<close>
  gathers the definitions that evaluation of concrete cycles unfolds.
\<close>

named_theorems model_defs "definitions unfolded when a concrete cycle of the agent is evaluated"

section \<open>Python exceptions and true division\<close>

datatype py_exc = ZeroDivisionError | TypeError | AttributeError

type_synonym 'a py_result = "py_exc + 'a"

text \<open>Python's \<open>a / b\<close> on floats: raises \<open>ZeroDivisionError\<close> when \<open>b\<close> is zero.\<close>

definition py_truediv :: "real \<Rightarrow> real \<Rightarrow> real py_result" where
  "py_truediv a b = (if b = 0 then Inl ZeroDivisionError else Inr (a / b))"

lemma py_truediv_ok [simp]: "b \<noteq> 0 \<Longrightarrow> py_truediv a b = Inr (a / b)"
  by (simp add: py_truediv_def)

lemma py_truediv_zero [simp]: "py_truediv a 0 = Inl ZeroDivisionError"
  by (simp add: py_truediv_def)

lemma py_truediv_Inl [simp]: "py_truediv a b = Inl e \<longleftrightarrow> b = 0 \<and> e = ZeroDivisionError"
  by (auto simp: py_truediv_def)

lemma py_truediv_Inr [simp]: "py_truediv a b = Inr q \<longleftrightarrow> b \<noteq> 0 \<and> q = a / b"
  by (auto simp: py_truediv_def)

section \<open>Substring test\<close>

text \<open>
  Python's \<open>needle in haystack\<close> on strings: a contiguous occurrence.  The
  executable scan tries a prefix match at every position of the haystack.
\<close>

fun py_str_in :: "string \<Rightarrow> string \<Rightarrow> bool" where
  "py_str_in n [] = (n = [])"
| "py_str_in n (c # cs) = (prefix n (c # cs) \<or> py_str_in n cs)"

text \<open>The scan decides the library's contiguous-sublist relation.\<close>

lemma py_str_in_sublist: "py_str_in n h \<longleftrightarrow> sublist n h"
  by (induction h) (auto simp: sublist_Cons_right)

lemma py_str_in_append [intro]: "py_str_in n (xs @ n @ ys)"
  by (simp add: py_str_in_sublist sublist_appendI)

section \<open>Sum-type helpers\<close>

lemma sum_case_Inl_eq [simp]:
  "(case x of Inl e \<Rightarrow> Inl e | Inr v \<Rightarrow> Inr (f v)) = Inl e' \<longleftrightarrow> x = Inl e'"
  by (cases x) auto

end
