(* ===== verification/Environment.thy ===== *)
theory Environment
  imports Prelude
begin

text \<open>
  The collaborators of the monitoring agent and what it makes observable.
  The MetaTrader5 package and the Windows \<open>tasklist\<close> command are not part of
  the repository: the model takes their answers as inputs of each cycle
  (\<open>mt5_reply\<close>, \<open>cycle_env\<close>).  What the agent does to the outside world
  (log records, calls into the terminal, \<open>print\<close>, \<open>time.sleep\<close>) is a trace
  of \<open>effect\<close>s, in the order the code performs them.
\<close>

section \<open>Account snapshot (\<open>mt5.account_info()\<close>)\<close>

text \<open>The four fields of \<open>account_info\<close> that \<open>check_account_health\<close> reads.\<close>

record account_info =
  balance :: real
  equity :: real
  profit :: real
  margin_level :: real

section \<open>Answers of the collaborators during one cycle\<close>

text \<open>
  \<open>init_ok\<close> is the result of \<open>mt5.initialize()\<close>, \<open>account\<close> that of
  \<open>mt5.account_info()\<close> (\<open>None\<close> when the terminal returns no data).
\<close>

record mt5_reply =
  init_ok :: bool
  account :: "account_info option"

text \<open>
  \<open>tasklist\<close> is the standard output of \<open>subprocess.run(['tasklist', ...])\<close>,
  \<open>None\<close> when the call raises (as on a machine without \<open>tasklist\<close>).
\<close>

record cycle_env =
  tasklist :: "string option"
  mt5 :: mt5_reply

section \<open>Observable effects\<close>

text \<open>Log levels of the \<open>logging\<close> module; the agent configures level INFO, so all four are recorded.\<close>

datatype level = INFO | WARNING | ERROR | CRITICAL

text \<open>
  The log messages of \<open>monitoring_agent.py\<close>, one constructor per call of
  \<open>logging.*\<close>, carrying the values the f-string formats.  The timestamp of
  the status record and the text of \<open>mt5.last_error()\<close> are not modelled.
\<close>

datatype event =
  Mt5NotAvailable
| Mt5InitFailed
| AccountInfoFailed
| EquityChangeAlert real
| EquityDrawdown real
| MarginLevelAlert real
| Status real real real real
| BotProcessNotFound
| BotCheckError
| ConsecutiveErrors int
| AgentStarted
| AgentStopped

datatype console = PrintRunning int | PrintPressCtrlC | PrintStopped

datatype effect =
  Log level event
| Print console
| Mt5Initialize
| Mt5Shutdown
| RunTasklist
| Sleep int

type_synonym trace = "effect list"

end
