(* ===== verification/Health.thy ===== *)
theory Health
  imports Environment
begin

text \<open>
  The agent's state (\<open>MonitoringAgent.__init__\<close>) and the account health
  check (\<open>MonitoringAgent.check_account_health\<close>, monitoring_agent.py lines
  28--77): the comparison with the previous poll, the drawdown and margin
  checks, the update of the previous observation, and the calls into the
  terminal.  It also holds the abstract Health Evaluator of the
  specification (\<open>evaluate\<close>) and the refinement lemma relating the two.
\<close>

section \<open>Agent state\<close>

record agent =
  last_balance :: "real option"
  last_equity :: "real option"
  error_count :: int
  alert_threshold :: int

definition init_agent :: agent where
  "init_agent = \<lparr>last_balance = None, last_equity = None, error_count = 0, alert_threshold = 5\<rparr>"

section \<open>The health check\<close>

text \<open>\<open>((new - old) / old) * 100\<close>, raising when \<open>old\<close> is zero.\<close>

definition pct_change :: "real \<Rightarrow> real \<Rightarrow> real py_result" where
  "pct_change new old = (case py_truediv (new - old) old of
      Inl e \<Rightarrow> Inl e
    | Inr q \<Rightarrow> Inr (q * 100))"

text \<open>Lines 53--57: the alerts on the equity change, a percentage.\<close>

definition equity_change_alerts :: "real \<Rightarrow> trace" where
  "equity_change_alerts equity_change =
     (if \<bar>equity_change\<bar> > 5 then [Log WARNING (EquityChangeAlert equity_change)] else [])
     @ (if equity_change < -10 then [Log CRITICAL (EquityDrawdown equity_change)] else [])"

text \<open>
  Lines 49--57: only when a previous balance is stored.  \<open>balance_change\<close> is
  computed first and never used, but its division can raise; \<open>last_equity\<close>
  being \<open>None\<close> there would make \<open>equity - None\<close> raise \<open>TypeError\<close>.
\<close>

definition change_alerts :: "agent \<Rightarrow> real \<Rightarrow> real \<Rightarrow> trace py_result" where
  "change_alerts a bal eq = (case last_balance a of
      None \<Rightarrow> Inr []
    | Some lb \<Rightarrow> (case pct_change bal lb of
        Inl e \<Rightarrow> Inl e
      | Inr balance_change \<Rightarrow> (case last_equity a of
          None \<Rightarrow> Inl TypeError
        | Some le \<Rightarrow> (case pct_change eq le of
            Inl e \<Rightarrow> Inl e
          | Inr equity_change \<Rightarrow> Inr (equity_change_alerts equity_change)))))"

text \<open>Lines 60--61.\<close>

definition margin_alerts :: "account_info \<Rightarrow> trace" where
  "margin_alerts ai =
     (if margin_level ai < 100 then [Log CRITICAL (MarginLevelAlert (margin_level ai))] else [])"

text \<open>
  The whole method.  \<open>mt5_loaded\<close> is \<open>mt5 is not None\<close> (the import at the
  top of the module succeeded).  The result is the method's return value and
  the updated agent, or the exception that escapes it, with the effects it
  performed before returning or raising.
\<close>

definition check_account_health ::
  "bool \<Rightarrow> mt5_reply \<Rightarrow> agent \<Rightarrow> (bool \<times> agent) py_result \<times> trace" where
  "check_account_health mt5_loaded r a =
    (if \<not> mt5_loaded then (Inr (False, a), [Log ERROR Mt5NotAvailable])
     else if \<not> init_ok r then (Inr (False, a), [Mt5Initialize, Log ERROR Mt5InitFailed])
     else (case account r of
       None \<Rightarrow> (Inr (False, a), [Mt5Initialize, Log ERROR AccountInfoFailed, Mt5Shutdown])
     | Some ai \<Rightarrow> (case change_alerts a (balance ai) (equity ai) of
         Inl e \<Rightarrow> (Inl e, [Mt5Initialize])
       | Inr alerts \<Rightarrow>
           (Inr (True, a\<lparr>last_balance := Some (balance ai), last_equity := Some (equity ai)\<rparr>),
            Mt5Initialize # alerts @ margin_alerts ai
            @ [Log INFO (Status (balance ai) (equity ai) (profit ai) (margin_level ai)), Mt5Shutdown]))))"

declare pct_change_def [model_defs] equity_change_alerts_def [model_defs] change_alerts_def [model_defs]
  margin_alerts_def [model_defs] check_account_health_def [model_defs] init_agent_def [model_defs]

section \<open>The Health Evaluator of the specification\<close>

text \<open>
  The specification's \<open>evaluate(previous, current)\<close> (section 4.1): the
  classifications of one cycle from the previous equity, the current equity
  and the current margin level (\<open>None\<close>: undefined, no open exposure).
\<close>

datatype classification = SignificantMove | CriticalDrawdown | MarginCallRisk

definition evaluate :: "real option \<Rightarrow> real \<Rightarrow> real option \<Rightarrow> classification list" where
  "evaluate prev_equity cur_equity cur_margin =
     (case prev_equity of
        None \<Rightarrow> []
      | Some pe \<Rightarrow>
          if pe = 0 then []
          else (let pct = (cur_equity - pe) / pe * 100
                in (if \<bar>pct\<bar> > 5 then [SignificantMove] else [])
                   @ (if pct < -10 then [CriticalDrawdown] else [])))
     @ (case cur_margin of
          None \<Rightarrow> []
        | Some m \<Rightarrow> if m < 100 then [MarginCallRisk] else [])"

text \<open>How a log record of the agent reads as a classification of the specification.\<close>

fun classify :: "effect \<Rightarrow> classification option" where
  "classify (Log WARNING (EquityChangeAlert _)) = Some SignificantMove"
| "classify (Log CRITICAL (EquityDrawdown _)) = Some CriticalDrawdown"
| "classify (Log CRITICAL (MarginLevelAlert _)) = Some MarginCallRisk"
| "classify _ = None"

definition classifications :: "trace \<Rightarrow> classification list" where
  "classifications es = List.map_filter classify es"

section \<open>Well-formed agent states\<close>

text \<open>
  \<open>last_balance\<close> and \<open>last_equity\<close> are written together (lines 63--64),
  so they are stored or absent together; the counter never goes negative.
\<close>

definition agent_wf :: "agent \<Rightarrow> bool" where
  "agent_wf a \<longleftrightarrow> (last_balance a = None \<longleftrightarrow> last_equity a = None) \<and> 0 \<le> error_count a"

section \<open>Lemmas\<close>

subsection \<open>Classifications of a trace\<close>

lemma classifications_Nil [simp]: "classifications [] = []"
  by (simp add: classifications_def)
lemma classifications_Cons [simp]:
  "classifications (x # xs) = (case classify x of None \<Rightarrow> classifications xs | Some c \<Rightarrow> c # classifications xs)"
  by (simp add: classifications_def List.map_filter_simps split: option.splits)
lemma classifications_append [simp]: "classifications (xs @ ys) = classifications xs @ classifications ys"
  by (simp add: classifications_def List.map_filter_def)

lemma classifications_equity_change_alerts [simp]:
  "classifications (equity_change_alerts p) =
     (if \<bar>p\<bar> > 5 then [SignificantMove] else []) @ (if p < -10 then [CriticalDrawdown] else [])"
  by (simp add: equity_change_alerts_def)

lemma classifications_margin_alerts [simp]:
  "classifications (margin_alerts ai) = (if margin_level ai < 100 then [MarginCallRisk] else [])"
  by (simp add: margin_alerts_def)

subsection \<open>The comparison with the previous poll\<close>

lemma change_alerts_first [simp]: "last_balance a = None \<Longrightarrow> change_alerts a bal eq = Inr []"
  by (simp add: change_alerts_def)

lemma change_alerts_prev:
  "last_balance a = Some lb \<Longrightarrow> lb \<noteq> 0 \<Longrightarrow> last_equity a = Some le \<Longrightarrow> le \<noteq> 0 \<Longrightarrow>
   change_alerts a bal eq = Inr (equity_change_alerts ((eq - le) / le * 100))"
  by (simp add: change_alerts_def pct_change_def)

lemma change_alerts_raises:
  "agent_wf a \<Longrightarrow> change_alerts a bal eq = Inl e \<longleftrightarrow>
     e = ZeroDivisionError \<and> (last_balance a = Some 0 \<or> last_equity a = Some 0)"
  by (auto simp: change_alerts_def pct_change_def agent_wf_def split: option.splits sum.splits)

subsection \<open>The five outcomes of the health check\<close>

text \<open>Module unavailable, initialisation failed, no account data, an exception in the comparison, success.\<close>

lemma check_account_health_cases:
  "check_account_health m r a = (res, es) \<Longrightarrow>
     (\<not> m \<and> res = Inr (False, a) \<and> es = [Log ERROR Mt5NotAvailable])
   \<or> (m \<and> \<not> init_ok r \<and> res = Inr (False, a) \<and> es = [Mt5Initialize, Log ERROR Mt5InitFailed])
   \<or> (m \<and> init_ok r \<and> account r = None \<and> res = Inr (False, a)
        \<and> es = [Mt5Initialize, Log ERROR AccountInfoFailed, Mt5Shutdown])
   \<or> (\<exists>ai e. m \<and> init_ok r \<and> account r = Some ai \<and> change_alerts a (balance ai) (equity ai) = Inl e
        \<and> res = Inl e \<and> es = [Mt5Initialize])
   \<or> (\<exists>ai alerts. m \<and> init_ok r \<and> account r = Some ai
        \<and> change_alerts a (balance ai) (equity ai) = Inr alerts
        \<and> res = Inr (True, a\<lparr>last_balance := Some (balance ai), last_equity := Some (equity ai)\<rparr>)
        \<and> es = Mt5Initialize # alerts @ margin_alerts ai
               @ [Log INFO (Status (balance ai) (equity ai) (profit ai) (margin_level ai)), Mt5Shutdown])"
  by (auto simp: check_account_health_def split: if_splits option.splits sum.splits)

lemma classifications_change_alerts:
  assumes "agent_wf a" and "change_alerts a bal eq = Inr alerts"
  shows "classifications alerts @ xs = evaluate (last_equity a) eq (Some m) \<longleftrightarrow>
         xs = (if m < 100 then [MarginCallRisk] else [])"
  using assms
  by (auto simp: change_alerts_def pct_change_def agent_wf_def evaluate_def Let_def
           split: option.splits sum.splits)

subsection \<open>Refinement of the Health Evaluator\<close>

text \<open>
  C3: when the check succeeds, the alerts it logs are, in order, the
  classifications the specification's \<open>evaluate\<close> computes from the previous
  equity, the current equity and the current margin level.
\<close>

theorem check_account_health_refines_evaluate:
  assumes "agent_wf a" and "account r = Some ai"
    and "check_account_health True r a = (Inr (True, a'), es)"
  shows "classifications es = evaluate (last_equity a) (equity ai) (Some (margin_level ai))"
proof -
  from check_account_health_cases [OF assms(3)] assms(2) obtain alerts where
    ch: "change_alerts a (balance ai) (equity ai) = Inr alerts" and
    es: "es = Mt5Initialize # alerts @ margin_alerts ai
               @ [Log INFO (Status (balance ai) (equity ai) (profit ai) (margin_level ai)), Mt5Shutdown]"
    by auto
  have "classifications es = classifications alerts @ (if margin_level ai < 100 then [MarginCallRisk] else [])"
    by (simp add: es)
  then show ?thesis
    using classifications_change_alerts [OF assms(1) ch] by simp
qed


subsection \<open>Errors, first poll, terminal session\<close>

text \<open>
  C4: once the account is read, the check raises exactly when the stored
  previous balance or previous equity is zero, and then it raises
  \<open>ZeroDivisionError\<close>; the specification asks for the percentage to be
  skipped instead.
\<close>

lemma check_account_health_raises:
  assumes "agent_wf a" and "init_ok r" and "account r = Some ai"
  shows "fst (check_account_health True r a) = Inl e \<longleftrightarrow>
         e = ZeroDivisionError \<and> (last_balance a = Some 0 \<or> last_equity a = Some 0)"
  using assms change_alerts_raises [OF assms(1), of "balance ai" "equity ai" e]
  by (auto simp: check_account_health_def split: sum.splits)

subsection \<open>State update\<close>

lemma check_account_health_state:
  assumes "check_account_health m r a = (Inr (ok, a'), es)"
  shows "(ok \<longrightarrow> (\<exists>ai. account r = Some ai \<and>
              a' = a\<lparr>last_balance := Some (balance ai), last_equity := Some (equity ai)\<rparr>))
         \<and> (\<not> ok \<longrightarrow> a' = a)"
  using check_account_health_cases [OF assms] by auto

text \<open>
  C5: the terminal is initialised exactly when the module is loaded, and shut
  down exactly when it was initialised and the method returned normally:
  the \<open>ZeroDivisionError\<close> path leaves the terminal connection open.
\<close>

lemma check_account_health_session:
  assumes "check_account_health m r a = (res, es)"
  shows "(Mt5Initialize \<in> set es \<longleftrightarrow> m) \<and>
         (Mt5Shutdown \<in> set es \<longleftrightarrow> m \<and> init_ok r \<and> (\<exists>v. res = Inr v))"
  using check_account_health_cases [OF assms] by auto

lemma check_account_health_wf:
  assumes "check_account_health m r a = (Inr (ok, a'), es)" and "agent_wf a"
  shows "agent_wf a' \<and> error_count a' = error_count a \<and> alert_threshold a' = alert_threshold a"
  using check_account_health_state [OF assms(1)] assms(2) by (auto simp: agent_wf_def)

end
