(* ===== verification/Liveness.thy ===== *)
theory Liveness
  imports Environment
begin

text \<open>
  The process liveness check (\<open>MonitoringAgent.check_bot_process\<close>,
  monitoring_agent.py lines 79--94): run \<open>tasklist\<close> filtered on the image
  name \<open>python.exe\<close> and look for that name in its output.  The answer of
  \<open>subprocess.run\<close> is the input; an exception it raises is caught and
  reported as a failed check.
\<close>

definition bot_image :: string where
  "bot_image = ''python.exe''"

definition check_bot_process :: "string option \<Rightarrow> bool \<times> trace" where
  "check_bot_process out =
     (case out of
        None \<Rightarrow> (False, [RunTasklist, Log ERROR BotCheckError])
      | Some stdout \<Rightarrow>
          if \<not> py_str_in bot_image stdout
          then (False, [RunTasklist, Log CRITICAL BotProcessNotFound])
          else (True, [RunTasklist]))"

declare bot_image_def [model_defs] check_bot_process_def [model_defs]

section \<open>Lemmas\<close>

text \<open>
  C13: the check succeeds exactly when \<open>tasklist\<close> ran and its output
  contains \<open>python.exe\<close>; a failed check always logs why, a successful one
  logs nothing.
\<close>

lemma check_bot_process_result:
  "fst (check_bot_process out) \<longleftrightarrow> (\<exists>s. out = Some s \<and> sublist bot_image s)"
  by (auto simp: check_bot_process_def py_str_in_sublist split: option.splits)

lemma check_bot_process_trace:
  "check_bot_process out = (ok, es) \<Longrightarrow>
     hd es = RunTasklist \<and> (ok \<longleftrightarrow> es = [RunTasklist]) \<and> Sleep n \<notin> set es"
  by (auto simp: check_bot_process_def split: option.splits if_splits)

end
