(* ===== verification/Loop.thy ===== *)
theory Loop
  imports Health Liveness
begin

text \<open>
  The monitoring loop (\<open>MonitoringAgent.monitor_loop\<close>, monitoring_agent.py
  lines 96--125, and the entry point, lines 127--129): per cycle the liveness
  check and the account check, each moving the shared error counter up on
  failure and down (floored at 0) on success, the sustained-failure alert, and
  the sleep.  The \<open>while True\<close> loop is modelled by a run over the finite
  list of cycles that complete before the operator's \<open>KeyboardInterrupt\<close>,
  which arrives during the last sleep; each cycle takes the collaborators'
  answers as its input.  An exception other than \<open>KeyboardInterrupt\<close>
  escapes the loop and ends the run.
\<close>

section \<open>One cycle\<close>

text \<open>Lines 105--108 and 111--114: the update of the shared counter after one check.\<close>

definition update_count :: "bool \<Rightarrow> int \<Rightarrow> int" where
  "update_count ok c = (if \<not> ok then c + 1 else max 0 (c - 1))"

text \<open>Lines 117--118.\<close>

definition alert_check :: "agent \<Rightarrow> trace" where
  "alert_check a =
     (if error_count a \<ge> alert_threshold a
      then [Log CRITICAL (ConsecutiveErrors (error_count a))] else [])"

text \<open>Lines 103--121: the body of \<open>while True\<close>.\<close>

definition monitor_cycle :: "bool \<Rightarrow> int \<Rightarrow> cycle_env \<Rightarrow> agent \<Rightarrow> agent py_result \<times> trace" where
  "monitor_cycle m interval env a =
     (case check_bot_process (tasklist env) of
       (bot_ok, e1) \<Rightarrow>
         (let a1 = a\<lparr>error_count := update_count bot_ok (error_count a)\<rparr>
          in case check_account_health m (mt5 env) a1 of
               (Inl ex, e2) \<Rightarrow> (Inl ex, e1 @ e2)
             | (Inr (acc_ok, a2), e2) \<Rightarrow>
                 (let a3 = a2\<lparr>error_count := update_count acc_ok (error_count a2)\<rparr>
                  in (Inr a3, e1 @ e2 @ alert_check a3 @ [Sleep interval]))))"

section \<open>The loop\<close>

fun monitor_cycles :: "bool \<Rightarrow> int \<Rightarrow> cycle_env list \<Rightarrow> agent \<Rightarrow> agent py_result \<times> trace" where
  "monitor_cycles m interval [] a = (Inr a, [])"
| "monitor_cycles m interval (env # envs) a =
     (case monitor_cycle m interval env a of
        (Inl ex, es) \<Rightarrow> (Inl ex, es)
      | (Inr a', es) \<Rightarrow> (case monitor_cycles m interval envs a' of (r, es') \<Rightarrow> (r, es @ es')))"

text \<open>
  Lines 96--125: the start-up log and banner, the cycles, and on
  \<open>KeyboardInterrupt\<close> the shutdown log and message.
\<close>

definition monitor_loop :: "bool \<Rightarrow> int \<Rightarrow> cycle_env list \<Rightarrow> agent \<Rightarrow> agent py_result \<times> trace" where
  "monitor_loop m interval envs a =
     (let start = [Log INFO AgentStarted, Print (PrintRunning interval), Print PrintPressCtrlC]
      in case monitor_cycles m interval envs a of
           (Inl ex, es) \<Rightarrow> (Inl ex, start @ es)
         | (Inr a', es) \<Rightarrow> (Inr a', start @ es @ [Log INFO AgentStopped, Print PrintStopped]))"

text \<open>Lines 127--129: a fresh agent, polling every 300 seconds.\<close>

definition agent_main :: "bool \<Rightarrow> cycle_env list \<Rightarrow> agent py_result \<times> trace" where
  "agent_main m envs = monitor_loop m 300 envs init_agent"

declare update_count_def [model_defs] alert_check_def [model_defs] monitor_cycle_def [model_defs]
  monitor_loop_def [model_defs] agent_main_def [model_defs]

section \<open>Reachable agent states\<close>

inductive reachable :: "agent \<Rightarrow> bool" where
  init: "reachable init_agent"
| cycle: "reachable a \<Longrightarrow> monitor_cycle m interval env a = (Inr a', es) \<Longrightarrow> reachable a'"

section \<open>Observations\<close>

text \<open>The counts reported by the sustained-failure alerts of a trace, in order.\<close>

fun alert_count :: "effect \<Rightarrow> int option" where
  "alert_count (Log CRITICAL (ConsecutiveErrors n)) = Some n"
| "alert_count _ = None"

definition alerts_of :: "trace \<Rightarrow> int list" where
  "alerts_of es = List.map_filter alert_count es"

section \<open>Collaborator answers of interest\<close>

text \<open>
  A cycle in which both checks succeed and the account read has non-zero
  balance and equity (so that a later comparison with it cannot divide by
  zero).
\<close>

definition healthy_env :: "cycle_env \<Rightarrow> bool" where
  "healthy_env env \<longleftrightarrow>
     (case tasklist env of None \<Rightarrow> False | Some s \<Rightarrow> py_str_in bot_image s)
     \<and> init_ok (mt5 env)
     \<and> (case account (mt5 env) of None \<Rightarrow> False | Some ai \<Rightarrow> balance ai \<noteq> 0 \<and> equity ai \<noteq> 0)"

text \<open>A cycle in which the account check fails without reading the account.\<close>

definition account_fails :: "bool \<Rightarrow> cycle_env \<Rightarrow> bool" where
  "account_fails m env \<longleftrightarrow> \<not> m \<or> \<not> init_ok (mt5 env) \<or> account (mt5 env) = None"

text \<open>No stored previous value is zero.\<close>

definition nonzero_baseline :: "agent \<Rightarrow> bool" where
  "nonzero_baseline a \<longleftrightarrow> last_balance a \<noteq> Some 0 \<and> last_equity a \<noteq> Some 0"

fun loop_event :: "event \<Rightarrow> bool" where
  "loop_event AgentStarted = True"
| "loop_event AgentStopped = True"
| "loop_event (ConsecutiveErrors _) = True"
| "loop_event _ = False"

fun check_effect :: "effect \<Rightarrow> bool" where
  "check_effect (Log _ ev) = (\<not> loop_event ev)"
| "check_effect Mt5Initialize = True"
| "check_effect Mt5Shutdown = True"
| "check_effect RunTasklist = True"
| "check_effect _ = False"

definition nonzero_reads :: "cycle_env \<Rightarrow> bool" where
  "nonzero_reads env \<longleftrightarrow>
     (case account (mt5 env) of None \<Rightarrow> True | Some ai \<Rightarrow> balance ai \<noteq> 0 \<and> equity ai \<noteq> 0)"


section \<open>Lemmas\<close>

subsection \<open>One cycle\<close>

lemma update_count_nonneg [simp]: "0 \<le> c \<Longrightarrow> 0 \<le> update_count ok c"
  by (simp add: update_count_def)

lemma check_account_health_ok:
  "check_account_health m r a = (Inr (ok, a'), es) \<Longrightarrow> ok \<longleftrightarrow> m \<and> init_ok r \<and> account r \<noteq> None"
  by (drule check_account_health_cases) auto

lemma monitor_cycle_Inr:
  assumes "monitor_cycle m iv env a = (Inr a', es)"
  obtains bot_ok e1 acc_ok a2 e2 where
    "check_bot_process (tasklist env) = (bot_ok, e1)"
    "check_account_health m (mt5 env) (a\<lparr>error_count := update_count bot_ok (error_count a)\<rparr>) = (Inr (acc_ok, a2), e2)"
    "a' = a2\<lparr>error_count := update_count acc_ok (error_count a2)\<rparr>"
    "es = e1 @ e2 @ alert_check a' @ [Sleep iv]"
  using assms by (auto simp: monitor_cycle_def Let_def split: prod.splits sum.splits)

lemma monitor_cycle_Inl:
  assumes "monitor_cycle m iv env a = (Inl ex, es)"
  obtains bot_ok e1 e2 where
    "check_bot_process (tasklist env) = (bot_ok, e1)"
    "check_account_health m (mt5 env) (a\<lparr>error_count := update_count bot_ok (error_count a)\<rparr>) = (Inl ex, e2)"
    "es = e1 @ e2"
  using assms by (auto simp: monitor_cycle_def Let_def split: prod.splits sum.splits)

lemma monitor_cycle_count:
  assumes "monitor_cycle m iv env a = (Inr a', es)"
  shows "error_count a' = update_count (m \<and> init_ok (mt5 env) \<and> account (mt5 env) \<noteq> None)
                            (update_count (fst (check_bot_process (tasklist env))) (error_count a))"
proof -
  from assms obtain bot_ok e1 acc_ok a2 e2 where
    b: "check_bot_process (tasklist env) = (bot_ok, e1)" and
    h: "check_account_health m (mt5 env) (a\<lparr>error_count := update_count bot_ok (error_count a)\<rparr>) = (Inr (acc_ok, a2), e2)" and
    a': "a' = a2\<lparr>error_count := update_count acc_ok (error_count a2)\<rparr>"
    by (rule monitor_cycle_Inr)
  from check_account_health_state [OF h] have "error_count a2 = update_count bot_ok (error_count a)"
    by (cases acc_ok) auto
  with check_account_health_ok [OF h] a' b show ?thesis by simp
qed

lemma monitor_cycle_wf:
  assumes "monitor_cycle m iv env a = (Inr a', es)" and "agent_wf a"
  shows "agent_wf a' \<and> alert_threshold a' = alert_threshold a"
proof -
  from assms(1) obtain bot_ok e1 acc_ok a2 e2 where
    h: "check_account_health m (mt5 env) (a\<lparr>error_count := update_count bot_ok (error_count a)\<rparr>) = (Inr (acc_ok, a2), e2)" and
    a': "a' = a2\<lparr>error_count := update_count acc_ok (error_count a2)\<rparr>"
    by (rule monitor_cycle_Inr)
  have "agent_wf (a\<lparr>error_count := update_count bot_ok (error_count a)\<rparr>)"
    using assms(2) by (simp add: agent_wf_def)
  from check_account_health_wf [OF h this] a' show ?thesis
    by (simp add: agent_wf_def)
qed

text \<open>
  C2: in every state the agent reaches from its initial state, the counter
  is non-negative, the previous balance and equity are stored together, and
  the alert threshold is still 5.
\<close>

theorem reachable_agent_wf: "reachable a \<Longrightarrow> agent_wf a \<and> alert_threshold a = 5"
proof (induction rule: reachable.induct)
  case init
  show ?case by (simp add: init_agent_def agent_wf_def)
next
  case (cycle a m interval env a' es)
  then show ?case using monitor_cycle_wf by metis
qed

subsection \<open>Sustained-failure alerts\<close>

lemma alerts_of_Nil [simp]: "alerts_of [] = []"
  by (simp add: alerts_of_def)
lemma alerts_of_Cons [simp]:
  "alerts_of (x # xs) = (case alert_count x of None \<Rightarrow> alerts_of xs | Some n \<Rightarrow> n # alerts_of xs)"
  by (simp add: alerts_of_def split: option.splits)
lemma alerts_of_append [simp]: "alerts_of (xs @ ys) = alerts_of xs @ alerts_of ys"
  by (simp add: alerts_of_def List.map_filter_def)

lemma alerts_of_check_bot_process [simp]: "alerts_of (snd (check_bot_process out)) = []"
  by (simp add: check_bot_process_def split: option.splits)

lemma alerts_of_change_alerts:
  "change_alerts a bal eq = Inr alerts \<Longrightarrow> alerts_of alerts = []"
  by (auto simp: change_alerts_def pct_change_def equity_change_alerts_def split: option.splits sum.splits)

lemma alerts_of_check_account_health [simp]: "alerts_of (snd (check_account_health m r a)) = []"
  using check_account_health_cases [of m r a "fst (check_account_health m r a)" "snd (check_account_health m r a)"]
  by (auto simp: margin_alerts_def dest: alerts_of_change_alerts)

lemma monitor_cycle_alert:
  assumes "monitor_cycle m iv env a = (Inr a', es)"
  shows "alerts_of es = (if alert_threshold a' \<le> error_count a' then [error_count a'] else [])"
proof -
  from assms obtain bot_ok e1 acc_ok a2 e2 where
    b: "check_bot_process (tasklist env) = (bot_ok, e1)" and
    h: "check_account_health m (mt5 env) (a\<lparr>error_count := update_count bot_ok (error_count a)\<rparr>) = (Inr (acc_ok, a2), e2)" and
    es: "es = e1 @ e2 @ alert_check a' @ [Sleep iv]"
    by (rule monitor_cycle_Inr)
  have "alerts_of e1 = []" using alerts_of_check_bot_process [of "tasklist env"] b by simp
  moreover have "alerts_of e2 = []" using alerts_of_check_account_health h by (metis snd_conv)
  ultimately show ?thesis by (simp add: es alert_check_def)
qed

subsection \<open>Runs of cycles\<close>

lemma change_alerts_count_upd [simp]:
  "change_alerts (a\<lparr>error_count := c\<rparr>) bal eq = change_alerts a bal eq"
  by (simp add: change_alerts_def split: option.splits sum.splits)

lemma healthy_cycle:
  assumes "healthy_env env" and "agent_wf a" and "nonzero_baseline a"
  shows "\<exists>a' es. monitor_cycle True iv env a = (Inr a', es) \<and> error_count a' = max 0 (error_count a - 2)
           \<and> agent_wf a' \<and> nonzero_baseline a' \<and> alert_threshold a' = alert_threshold a"
proof -
  obtain s ai where t: "tasklist env = Some s" "py_str_in bot_image s" and
    r: "init_ok (mt5 env)" "account (mt5 env) = Some ai" "balance ai \<noteq> 0" "equity ai \<noteq> 0"
    using assms(1) by (auto simp: healthy_env_def split: option.splits)
  have nz: "\<not> (last_balance a = Some 0 \<or> last_equity a = Some 0)"
    using assms(3) by (simp add: nonzero_baseline_def)
  obtain alerts where ch: "change_alerts a (balance ai) (equity ai) = Inr alerts"
    using change_alerts_raises [OF assms(2), of "balance ai" "equity ai"] nz
    by (cases "change_alerts a (balance ai) (equity ai)") auto
  show ?thesis
    using t r ch assms(2)
    by (auto simp: monitor_cycle_def check_bot_process_def check_account_health_def update_count_def
                   agent_wf_def nonzero_baseline_def Let_def)
qed

lemma account_fails_cycle:
  assumes "account_fails m env"
  shows "\<exists>es. monitor_cycle m iv env a =
           (Inr (a\<lparr>error_count := update_count False (update_count (fst (check_bot_process (tasklist env))) (error_count a))\<rparr>), es)
         \<and> alerts_of es = alerts_of (alert_check (a\<lparr>error_count :=
              update_count False (update_count (fst (check_bot_process (tasklist env))) (error_count a))\<rparr>))"
proof -
  obtain b e1 where b: "check_bot_process (tasklist env) = (b, e1)"
    by (cases "check_bot_process (tasklist env)") auto
  let ?a1 = "a\<lparr>error_count := update_count b (error_count a)\<rparr>"
  define e2 where "e2 = snd (check_account_health m (mt5 env) ?a1)"
  have h: "check_account_health m (mt5 env) ?a1 = (Inr (False, ?a1), e2)"
    using assms by (auto simp: e2_def account_fails_def check_account_health_def split: option.splits)
  have "alerts_of e1 = []" using alerts_of_check_bot_process [of "tasklist env"] b by simp
  moreover have "alerts_of e2 = []" using alerts_of_check_account_health h by (metis snd_conv)
  ultimately show ?thesis
    using b h by (simp add: monitor_cycle_def Let_def)
qed

lemma failing_cycle:
  assumes "\<not> fst (check_bot_process (tasklist env))" and "account_fails m env"
  shows "\<exists>es. monitor_cycle m iv env a = (Inr (a\<lparr>error_count := error_count a + 2\<rparr>), es)
           \<and> alerts_of es = (if alert_threshold a \<le> error_count a + 2 then [error_count a + 2] else [])"
  using account_fails_cycle [OF assms(2), of iv a] assms(1)
  by (auto simp: update_count_def alert_check_def add.assoc)

text \<open>
  C7: cycles in which both checks succeed (and read non-zero values) drain
  the counter by two per cycle down to 0, where it stays; from a counter
  \<open>N\<close>, \<open>ceil(N/2)\<close> such cycles reach 0.
\<close>

theorem monitor_cycles_drain:
  assumes "\<forall>env \<in> set envs. healthy_env env" and "agent_wf a" and "nonzero_baseline a"
  shows "\<exists>a' es. monitor_cycles True iv envs a = (Inr a', es)
           \<and> error_count a' = max 0 (error_count a - 2 * int (length envs))"
  using assms
proof (induction envs arbitrary: a)
  case Nil
  then show ?case by (simp add: agent_wf_def)
next
  case (Cons env envs)
  from healthy_cycle [of env a iv] Cons.prems obtain a1 es1 where
    c: "monitor_cycle True iv env a = (Inr a1, es1)" and
    n: "error_count a1 = max 0 (error_count a - 2)" "agent_wf a1" "nonzero_baseline a1"
    by auto
  from Cons.IH [of a1] Cons.prems n obtain a' es where
    r: "monitor_cycles True iv envs a1 = (Inr a', es)"
       "error_count a' = max 0 (error_count a1 - 2 * int (length envs))"
    by auto
  show ?case using c r n by auto
qed

text \<open>
  C8: in cycles in which both checks fail, the counter rises by two per
  cycle and the cycle whose counter reaches the threshold, and every later
  one, logs the alert with its count.
\<close>

theorem monitor_cycles_failing:
  assumes "\<forall>env \<in> set envs. \<not> fst (check_bot_process (tasklist env)) \<and> account_fails m env"
  shows "\<exists>es. monitor_cycles m iv envs a =
             (Inr (a\<lparr>error_count := error_count a + 2 * int (length envs)\<rparr>), es)
           \<and> alerts_of es = filter (\<lambda>n. alert_threshold a \<le> n)
                              (map (\<lambda>k. error_count a + 2 * int k + 2) [0..<length envs])"
  using assms
proof (induction envs arbitrary: a)
  case Nil
  then show ?case by simp
next
  case (Cons env envs)
  let ?a1 = "a\<lparr>error_count := error_count a + 2\<rparr>"
  from failing_cycle [of env m iv a] Cons.prems obtain es1 where
    c: "monitor_cycle m iv env a = (Inr ?a1, es1)" and
    al: "alerts_of es1 = (if alert_threshold a \<le> error_count a + 2 then [error_count a + 2] else [])"
    by auto
  from Cons.IH [of ?a1] Cons.prems obtain es where
    r: "monitor_cycles m iv envs ?a1 = (Inr (?a1\<lparr>error_count := error_count ?a1 + 2 * int (length envs)\<rparr>), es)"
       "alerts_of es = filter (\<lambda>n. alert_threshold ?a1 \<le> n)
                              (map (\<lambda>k. error_count ?a1 + 2 * int k + 2) [0..<length envs])"
    by auto
  have m: "map (\<lambda>k. error_count a + 2 * int k + 2) [0..<Suc (length envs)]
         = (error_count a + 2) # map (\<lambda>k. error_count a + 2 + 2 * int k + 2) [0..<length envs]"
    by (simp add: upt_conv_Cons map_Suc_upt [symmetric] del: upt_Suc)
  show ?case using c r al m by (simp add: algebra_simps)
qed


text \<open>
  C10: from a fresh agent, cycles in which the liveness check succeeds and
  the account check fails keep the counter at 1 after every cycle (the two
  updates cancel); no alert is ever logged.
\<close>

theorem monitor_cycles_bot_up_account_down:
  assumes "\<forall>env \<in> set envs. fst (check_bot_process (tasklist env)) \<and> account_fails m env"
    and "envs \<noteq> []"
  shows "\<exists>a' es. monitor_cycles m iv envs init_agent = (Inr a', es) \<and> error_count a' = 1 \<and> alerts_of es = []"
proof -
  have gen: "\<And>a. error_count a \<in> {0, 1} \<Longrightarrow> 2 \<le> alert_threshold a \<Longrightarrow>
      \<exists>es. monitor_cycles m iv envs a = (Inr (a\<lparr>error_count := if envs = [] then error_count a else 1\<rparr>), es)
           \<and> alerts_of es = []"
    using assms(1)
  proof (induction envs)
    case Nil
    then show ?case by simp
  next
    case (Cons env envs a)
    let ?a1 = "a\<lparr>error_count := 1\<rparr>"
    from account_fails_cycle [of m env iv a] Cons.prems obtain es1 where
      c: "monitor_cycle m iv env a = (Inr ?a1, es1)" "alerts_of es1 = []"
      by (auto simp: update_count_def alert_check_def)
    from Cons.IH [of ?a1] Cons.prems obtain es where
      r: "monitor_cycles m iv envs ?a1 = (Inr (?a1\<lparr>error_count := if envs = [] then 1 else 1\<rparr>), es)" "alerts_of es = []"
      by auto
    show ?case using c r by simp
  qed
  from gen [of init_agent] assms(2) show ?thesis by (auto simp: init_agent_def)
qed


lemma check_effect_check_bot_process [simp]: "list_all check_effect (snd (check_bot_process out))"
  by (simp add: check_bot_process_def split: option.splits)

lemma check_effect_change_alerts:
  "change_alerts a bal eq = Inr alerts \<Longrightarrow> list_all check_effect alerts"
  by (auto simp: change_alerts_def pct_change_def equity_change_alerts_def split: option.splits sum.splits)

lemma check_effect_check_account_health [simp]: "list_all check_effect (snd (check_account_health m r a))"
  using check_account_health_cases [of m r a "fst (check_account_health m r a)" "snd (check_account_health m r a)"]
  by (auto simp: margin_alerts_def dest: check_effect_change_alerts)

lemma check_account_health_count_upd:
  "check_account_health m r (a\<lparr>error_count := c\<rparr>) =
     (case check_account_health m r a of
        (res, es) \<Rightarrow> (map_sum id (\<lambda>(ok, a'). (ok, a'\<lparr>error_count := c\<rparr>)) res, es))"
  by (simp add: check_account_health_def split: option.splits sum.splits)

text \<open>
  C1: one cycle of the loop, when the account check returns: the counter
  moves once per check (up on failure, down to at least 0 on success), the
  previous observation is the one the account check left, and the trace is
  the liveness check's, the account check's, the alert if due, and the sleep.
\<close>

theorem monitor_cycle_spec:
  assumes "check_bot_process (tasklist env) = (bot_ok, e1)"
    and "check_account_health m (mt5 env) a = (Inr (acc_ok, a2), e2)"
  shows "monitor_cycle m iv env a =
           (let a3 = a2\<lparr>error_count := update_count acc_ok (update_count bot_ok (error_count a))\<rparr>
            in (Inr a3, e1 @ e2 @ alert_check a3 @ [Sleep iv]))"
  using assms by (simp add: monitor_cycle_def check_account_health_count_upd)

lemma monitor_cycle_raises:
  assumes "check_account_health m (mt5 env) a = (Inl ex, e2)"
  shows "monitor_cycle m iv env a = (Inl ex, snd (check_bot_process (tasklist env)) @ e2)"
  using assms by (simp add: monitor_cycle_def check_account_health_count_upd split: prod.splits)

lemma alert_count_Some: "alert_count x = Some n \<longleftrightarrow> x = Log CRITICAL (ConsecutiveErrors n)"
  by (cases x rule: alert_count.cases) auto

lemma alerts_of_set: "n \<in> set (alerts_of es) \<longleftrightarrow> Log CRITICAL (ConsecutiveErrors n) \<in> set es"
  by (induction es) (auto simp: alert_count_Some split: option.splits)

text \<open>
  C6: a completed cycle logs a sustained-failure alert carrying the count
  \<open>n\<close> exactly when \<open>n\<close> is the counter after the cycle and it has
  reached the threshold.
\<close>

theorem monitor_cycle_alert_logged:
  assumes "monitor_cycle m iv env a = (Inr a', es)"
  shows "Log CRITICAL (ConsecutiveErrors n) \<in> set es \<longleftrightarrow>
         n = error_count a' \<and> alert_threshold a' \<le> error_count a'"
  using monitor_cycle_alert [OF assms] alerts_of_set [of n es] by auto

lemma monitor_cycles_Cons_Inr [simp]:
  "monitor_cycle m iv env a = (Inr a1, es1) \<Longrightarrow>
   monitor_cycles m iv (env # envs) a = (case monitor_cycles m iv envs a1 of (r, es) \<Rightarrow> (r, es1 @ es))"
  by simp

text \<open>
  C9: from a counter at 0 with threshold 5, one cycle of any kind followed
  by a cycle in which both checks succeed leaves the counter at 0 and logs
  no sustained-failure alert.
\<close>

theorem isolated_failure_no_alert:
  assumes "agent_wf a" and "error_count a = 0" and "alert_threshold a = 5" and "healthy_env env2"
    and "monitor_cycles True iv [env1, env2] a = (Inr a', es)"
  shows "error_count a' = 0 \<and> alerts_of es = []"
proof -
  obtain r1 es1 where c1: "monitor_cycle True iv env1 a = (r1, es1)" by fastforce
  with assms(5) obtain a1 where r1: "r1 = Inr a1" by (cases r1) auto
  obtain r2 es2 where c2: "monitor_cycle True iv env2 a1 = (r2, es2)" by fastforce
  with assms(5) c1 r1 have r2: "r2 = Inr a'" and es: "es = es1 @ es2"
    by (cases r2; auto)+
  have w1: "agent_wf a1 \<and> alert_threshold a1 = 5"
    using monitor_cycle_wf [OF c1 [unfolded r1] assms(1)] assms(3) by simp
  have "error_count a1 \<le> 2"
    using monitor_cycle_count [OF c1 [unfolded r1]] assms(2)
    by (simp add: update_count_def)
  moreover have "fst (check_bot_process (tasklist env2))" "init_ok (mt5 env2)" "account (mt5 env2) \<noteq> None"
    using assms(4) by (auto simp: healthy_env_def check_bot_process_def split: option.splits)
  ultimately have n2: "error_count a' = 0"
    using monitor_cycle_count [OF c2 [unfolded r2]] by (simp add: update_count_def)
  have "alerts_of es1 = []"
    using monitor_cycle_alert [OF c1 [unfolded r1]] w1 \<open>error_count a1 \<le> 2\<close> by simp
  moreover have "alerts_of es2 = []"
    using monitor_cycle_alert [OF c2 [unfolded r2]] monitor_cycle_wf [OF c2 [unfolded r2]] w1 n2 by simp
  ultimately show ?thesis using n2 es by simp
qed


lemma safe_cycle:
  assumes "nonzero_reads env" and "agent_wf a" and "nonzero_baseline a"
  shows "\<exists>a' es. monitor_cycle m iv env a = (Inr a', es) \<and> nonzero_baseline a'"
proof -
  obtain res e2 where h: "check_account_health m (mt5 env) a = (res, e2)" by fastforce
  have "\<not> (last_balance a = Some 0 \<or> last_equity a = Some 0)"
    using assms(3) by (simp add: nonzero_baseline_def)
  then obtain ok a2 where res: "res = Inr (ok, a2)"
    using check_account_health_cases [OF h] change_alerts_raises [OF assms(2)] by auto
  have "nonzero_baseline a2"
    using check_account_health_state [OF h [unfolded res]] assms(1,3)
    by (cases ok) (auto simp: nonzero_baseline_def nonzero_reads_def)
  then show ?thesis
    using monitor_cycle_spec [OF _ h [unfolded res], of "fst (check_bot_process (tasklist env))"
                                  "snd (check_bot_process (tasklist env))" iv]
    by (simp add: Let_def nonzero_baseline_def)
qed

lemma monitor_cycles_safe:
  assumes "\<forall>env \<in> set envs. nonzero_reads env" and "agent_wf a" and "nonzero_baseline a"
  shows "\<exists>a' es. monitor_cycles m iv envs a = (Inr a', es) \<and> agent_wf a'"
  using assms
proof (induction envs arbitrary: a)
  case Nil
  then show ?case by simp
next
  case (Cons env envs)
  then obtain a1 es1 where c: "monitor_cycle m iv env a = (Inr a1, es1)" "nonzero_baseline a1"
    using safe_cycle [of env a m iv] by auto
  with Cons.prems have "agent_wf a1" using monitor_cycle_wf by blast
  with Cons.IH [of a1] Cons.prems c(2) obtain a' es where
    "monitor_cycles m iv envs a1 = (Inr a', es)" "agent_wf a'"
    by auto
  with c show ?case by simp
qed

text \<open>
  C12: when no account read returns a zero balance or equity, the loop never
  raises: it runs every cycle, keeps the agent well formed, and its trace
  starts with the start-up log and ends with the shutdown message.
\<close>

theorem monitor_loop_no_crash:
  assumes "\<forall>env \<in> set envs. nonzero_reads env" and "agent_wf a" and "nonzero_baseline a"
  shows "\<exists>a' es. monitor_loop m iv envs a = (Inr a', es) \<and> agent_wf a'
           \<and> hd es = Log INFO AgentStarted \<and> last es = Print PrintStopped"
  using monitor_cycles_safe [OF assms, of m iv] by (auto simp: monitor_loop_def)

lemma check_effects_not_stop:
  "list_all check_effect es \<Longrightarrow> Log l AgentStopped \<notin> set es \<and> Sleep n \<notin> set es"
  by (induction es) auto

lemma monitor_cycle_not_stop: "Log l AgentStopped \<notin> set (snd (monitor_cycle m iv env a))"
  using check_effects_not_stop [OF check_effect_check_bot_process [of "tasklist env"]]
        check_effects_not_stop [OF check_effect_check_account_health
           [of m "mt5 env" "a\<lparr>error_count := update_count (fst (check_bot_process (tasklist env))) (error_count a)\<rparr>"]]
  by (auto simp: monitor_cycle_def Let_def alert_check_def split: prod.splits sum.splits)

lemma monitor_cycles_not_stop: "Log l AgentStopped \<notin> set (snd (monitor_cycles m iv envs a))"
proof (induction envs arbitrary: a)
  case Nil
  then show ?case by simp
next
  case (Cons env envs)
  then show ?case
    using monitor_cycle_not_stop [of l m iv env a]
    by (auto split: prod.splits sum.splits) (metis Cons.IH snd_conv)
qed

lemma read_cycle:
  assumes "init_ok (mt5 env)" and "account (mt5 env) = Some ai" and "agent_wf a" and "nonzero_baseline a"
  shows "\<exists>a' es. monitor_cycle True iv env a = (Inr a', es) \<and> agent_wf a'
           \<and> last_balance a' = Some (balance ai) \<and> last_equity a' = Some (equity ai)"
proof -
  have "\<not> (last_balance a = Some 0 \<or> last_equity a = Some 0)"
    using assms(4) by (simp add: nonzero_baseline_def)
  then obtain alerts where ch: "change_alerts a (balance ai) (equity ai) = Inr alerts"
    using change_alerts_raises [OF assms(3), of "balance ai" "equity ai"]
    by (cases "change_alerts a (balance ai) (equity ai)") auto
  then have "check_account_health True (mt5 env) a =
      (Inr (True, a\<lparr>last_balance := Some (balance ai), last_equity := Some (equity ai)\<rparr>),
       snd (check_account_health True (mt5 env) a))"
    using assms(1,2) by (simp add: check_account_health_def)
  from monitor_cycle_spec [OF _ this, of "fst (check_bot_process (tasklist env))"
                                  "snd (check_bot_process (tasklist env))" iv] show ?thesis
    using assms(3) by (simp add: Let_def agent_wf_def)
qed

text \<open>
  C11: an account read with zero balance, followed by any later successful
  account read, makes the loop raise \<open>ZeroDivisionError\<close>: the agent stops
  without its shutdown log.
\<close>

theorem monitor_loop_zero_balance_crash:
  assumes "agent_wf a" and "nonzero_baseline a"
    and "init_ok (mt5 env1)" and "account (mt5 env1) = Some ai1" and "balance ai1 = 0"
    and "init_ok (mt5 env2)" and "account (mt5 env2) = Some ai2"
  shows "\<exists>es. monitor_loop True iv (env1 # env2 # envs) a = (Inl ZeroDivisionError, es)
           \<and> Log INFO AgentStopped \<notin> set es"
proof -
  obtain a1 es1 where c1: "monitor_cycle True iv env1 a = (Inr a1, es1)" and
    w: "agent_wf a1" and lb: "last_balance a1 = Some 0"
    using read_cycle [OF assms(3,4,1,2), of iv] assms(5) by auto
  let ?a1 = "a1\<lparr>error_count := update_count (fst (check_bot_process (tasklist env2))) (error_count a1)\<rparr>"
  have "change_alerts ?a1 (balance ai2) (equity ai2) = Inl ZeroDivisionError"
    using change_alerts_raises [of ?a1] w lb by (simp add: agent_wf_def)
  then have "check_account_health True (mt5 env2) a1 = (Inl ZeroDivisionError, [Mt5Initialize])"
    using assms(6,7) by (simp add: check_account_health_def)
  from monitor_cycle_raises [OF this, of iv] c1 have
    "monitor_cycles True iv (env1 # env2 # envs) a =
       (Inl ZeroDivisionError, es1 @ snd (check_bot_process (tasklist env2)) @ [Mt5Initialize])"
    by simp
  then show ?thesis
    using monitor_cycles_not_stop [of INFO True iv "env1 # env2 # envs" a]
    by (auto simp: monitor_loop_def)
qed


text \<open>
  C16: within a completed cycle the liveness check runs first and the sleep
  comes last; no other sleep happens inside the cycle.
\<close>

theorem monitor_cycle_trace_order:
  assumes "monitor_cycle m iv env a = (Inr a', es)"
  shows "hd es = RunTasklist \<and> last es = Sleep iv \<and> (\<forall>n. Sleep n \<notin> set (butlast es))"
proof -
  from assms obtain bot_ok e1 acc_ok a2 e2 where
    b: "check_bot_process (tasklist env) = (bot_ok, e1)" and
    h: "check_account_health m (mt5 env) (a\<lparr>error_count := update_count bot_ok (error_count a)\<rparr>) = (Inr (acc_ok, a2), e2)" and
    es: "es = e1 @ e2 @ alert_check a' @ [Sleep iv]"
    by (rule monitor_cycle_Inr)
  have e1: "e1 \<noteq> [] \<and> hd e1 = RunTasklist"
    using b by (auto simp: check_bot_process_def split: option.splits if_splits)
  have "list_all check_effect e1" using check_effect_check_bot_process [of "tasklist env"] b by simp
  moreover have "list_all check_effect e2" using check_effect_check_account_health h by (metis snd_conv)
  ultimately have "Sleep n \<notin> set e1 \<and> Sleep n \<notin> set e2" for n
    using check_effects_not_stop by blast
  then show ?thesis using e1 es by (simp add: alert_check_def butlast_append)
qed

text \<open>
  C14: a completed cycle replaces the previous observation by the account
  just read when the account check succeeds, and leaves it unchanged when
  the check fails.
\<close>

theorem monitor_cycle_snapshot:
  assumes "monitor_cycle m iv env a = (Inr a', es)"
  shows "(account_fails m env \<longrightarrow> last_balance a' = last_balance a \<and> last_equity a' = last_equity a)
       \<and> (\<not> account_fails m env \<longrightarrow> (\<exists>ai. account (mt5 env) = Some ai
             \<and> last_balance a' = Some (balance ai) \<and> last_equity a' = Some (equity ai)))"
proof -
  from assms obtain bot_ok e1 acc_ok a2 e2 where
    h: "check_account_health m (mt5 env) (a\<lparr>error_count := update_count bot_ok (error_count a)\<rparr>) = (Inr (acc_ok, a2), e2)" and
    a': "a' = a2\<lparr>error_count := update_count acc_ok (error_count a2)\<rparr>"
    by (rule monitor_cycle_Inr)
  from check_account_health_ok [OF h] have ok: "acc_ok \<longleftrightarrow> \<not> account_fails m env"
    by (auto simp: account_fails_def)
  show ?thesis
  proof (cases acc_ok)
    case True
    with check_account_health_state [OF h] obtain ai where
      "account (mt5 env) = Some ai"
      "a2 = a\<lparr>error_count := update_count bot_ok (error_count a),
              last_balance := Some (balance ai), last_equity := Some (equity ai)\<rparr>"
      by auto
    with True ok a' show ?thesis by simp
  next
    case False
    with check_account_health_state [OF h] ok a' show ?thesis by simp
  qed
qed

text \<open>
  C15: a completed cycle keeps the counter non-negative and moves it by at
  most two.
\<close>

theorem monitor_cycle_count_bounds:
  assumes "monitor_cycle m iv env a = (Inr a', es)" and "0 \<le> error_count a"
  shows "0 \<le> error_count a' \<and> error_count a - 2 \<le> error_count a' \<and> error_count a' \<le> error_count a + 2"
proof -
  obtain b acc where c: "error_count a' = update_count acc (update_count b (error_count a))"
    using monitor_cycle_count [OF assms(1)] by blast
  show ?thesis
    using c assms(2) by (auto simp: update_count_def max_def)
qed

end
