(* ===== verification/Logging.thy ===== *)
theory Logging
  imports Environment
begin

text \<open>
  The log sink of \<open>monitoring_agent.py\<close> (\<open>logging.basicConfig\<close>, lines
  15--19): records go to the file \<open>monitoring_agent.log\<close> when their level
  is at least the configured one, in the order they are emitted.  The levels
  are ordered by their numeric values in the \<open>logging\<close> module, which makes
  \<open>level\<close> a linear order.  The formatting of a record (timestamp, level
  name, message) is not modelled.
\<close>

section \<open>Severity levels\<close>

text \<open>\<open>logging.INFO\<close>, \<open>WARNING\<close>, \<open>ERROR\<close>, \<open>CRITICAL\<close>.\<close>

primrec level_num :: "level \<Rightarrow> nat" where
  "level_num INFO = 20"
| "level_num WARNING = 30"
| "level_num ERROR = 40"
| "level_num CRITICAL = 50"

instantiation level :: linorder
begin

definition less_eq_level :: "level \<Rightarrow> level \<Rightarrow> bool" where
  "l \<le> l' \<longleftrightarrow> level_num l \<le> level_num l'"

definition less_level :: "level \<Rightarrow> level \<Rightarrow> bool" where
  "l < l' \<longleftrightarrow> level_num l < level_num l'"

instance
proof
  fix x y z :: level
  show "x < y \<longleftrightarrow> x \<le> y \<and> \<not> y \<le> x"
    by (auto simp: less_eq_level_def less_level_def)
  show "x \<le> x" by (simp add: less_eq_level_def)
  show "x \<le> y \<Longrightarrow> y \<le> z \<Longrightarrow> x \<le> z" by (simp add: less_eq_level_def)
  show "x \<le> y \<Longrightarrow> y \<le> x \<Longrightarrow> x = y"
    by (cases x; cases y) (simp_all add: less_eq_level_def)
  show "x \<le> y \<or> y \<le> x" by (auto simp: less_eq_level_def)
qed

end

section \<open>The configuration and the file\<close>

record log_config =
  log_filename :: string
  log_level :: level

text \<open>Lines 15--19.\<close>

definition agent_logging :: log_config where
  "agent_logging = \<lparr>log_filename = ''monitoring_agent.log'', log_level = INFO\<rparr>"

text \<open>The records a trace emits, in order.\<close>

fun log_records :: "trace \<Rightarrow> (level \<times> event) list" where
  "log_records [] = []"
| "log_records (Log l ev # es) = (l, ev) # log_records es"
| "log_records (_ # es) = log_records es"

text \<open>
  What the file receives: a record is handled when its level is at least
  the logger's level (\<open>Logger.isEnabledFor\<close>), appended in emission order.
\<close>

definition log_file :: "log_config \<Rightarrow> trace \<Rightarrow> (level \<times> event) list" where
  "log_file c es = filter (\<lambda>(l, ev). log_level c \<le> l) (log_records es)"

section \<open>Lemmas\<close>

lemma INFO_least [simp]: "INFO \<le> l"
  by (cases l) (simp_all add: less_eq_level_def)

lemma log_records_append [simp]: "log_records (xs @ ys) = log_records xs @ log_records ys"
  by (induction xs rule: log_records.induct) auto

lemma log_file_agent [simp]: "log_file agent_logging es = log_records es"
  by (simp add: log_file_def agent_logging_def case_prod_beta)

end
