(* ===== verification/Run.thy ===== *)
theory Run
  imports Loop Logging
begin

text \<open>
  The monitoring loop over an unbounded sequence of events, as it runs:
  \<open>while True\<close> (monitoring_agent.py lines 102--124) consumes one tick per
  cycle; a tick is either the collaborators' answers for a full cycle or the
  operator's \<open>KeyboardInterrupt\<close>, delivered while the agent sleeps (or
  before the first cycle).  Nothing forces an interrupt ever to come, so the
  loop is a \<open>partial_function (option)\<close>: \<open>None\<close> is a run that never ends.
  The finite-list model \<open>monitor_loop\<close> of \<open>Loop\<close> is proved to be the
  special case of a sequence that ends with an interrupt.  An interrupt can
  also arrive inside a cycle (\<open>interrupted_cycle\<close>).  The theory also holds
  the severity discipline of the log (\<open>level_ok\<close>) with its proof over every
  trace of the loop, and the specification's counter machine (\<open>decay\<close>)
  with the refinement lemma for whole runs of \<open>agent_main\<close>.
\<close>

text \<open>
  Where an interrupt can arrive inside a cycle: while \<open>subprocess.run\<close>
  runs \<open>tasklist\<close> (line 83; the \<open>except Exception\<close> of line 92 does not
  catch \<open>KeyboardInterrupt\<close>), or while the account check talks to the
  terminal (\<open>mt5.initialize()\<close> or \<open>mt5.account_info()\<close>, lines 33--37).
\<close>

datatype phase = BotCheck | AccountCheck

datatype tick = Cycle cycle_env | Interrupt | InterruptDuring phase cycle_env

text \<open>
  The part of a cycle performed before the interrupt: the agent with the
  counter updates done so far, and the effects.  In the account check the
  liveness check has completed and moved the counter; the terminal has been
  asked to initialise when the module is loaded, and is not shut down.  When
  the module is not loaded there is no terminal call: the interrupt then
  arrives in the logging call of line 31, before its record is written.
  Lemma \<open>interrupted_cycle_prefix\<close> checks this summary against
  \<open>monitor_cycle\<close>: its effects are a prefix of the complete cycle's.
\<close>

definition interrupted_cycle :: "bool \<Rightarrow> phase \<Rightarrow> cycle_env \<Rightarrow> agent \<Rightarrow> agent \<times> trace" where
  "interrupted_cycle m ph env a =
     (case ph of
        BotCheck \<Rightarrow> (a, [RunTasklist])
      | AccountCheck \<Rightarrow>
          (case check_bot_process (tasklist env) of
             (bot_ok, e1) \<Rightarrow>
               (a\<lparr>error_count := update_count bot_ok (error_count a)\<rparr>,
                e1 @ (if m then [Mt5Initialize] else []))))"

partial_function (option) run_ticks ::
  "bool \<Rightarrow> int \<Rightarrow> (nat \<Rightarrow> tick) \<Rightarrow> nat \<Rightarrow> agent \<Rightarrow> trace \<Rightarrow> (agent py_result \<times> trace) option" where
  "run_ticks m interval ticks i a acc =
     (case ticks i of
        Interrupt \<Rightarrow> Some (Inr a, acc @ [Log INFO AgentStopped, Print PrintStopped])
      | InterruptDuring ph env \<Rightarrow>
          (case interrupted_cycle m ph env a of
             (a', es) \<Rightarrow> Some (Inr a', acc @ es @ [Log INFO AgentStopped, Print PrintStopped]))
      | Cycle env \<Rightarrow>
          (case monitor_cycle m interval env a of
             (Inl ex, es) \<Rightarrow> Some (Inl ex, acc @ es)
           | (Inr a', es) \<Rightarrow> run_ticks m interval ticks (Suc i) a' (acc @ es)))"

definition monitor_loop_ticks ::
  "bool \<Rightarrow> int \<Rightarrow> (nat \<Rightarrow> tick) \<Rightarrow> agent \<Rightarrow> (agent py_result \<times> trace) option" where
  "monitor_loop_ticks m interval ticks a =
     run_ticks m interval ticks 0 a [Log INFO AgentStarted, Print (PrintRunning interval), Print PrintPressCtrlC]"

text \<open>The tick sequence of a finite list of cycles followed by the interrupt.\<close>

definition ticks_of :: "cycle_env list \<Rightarrow> nat \<Rightarrow> tick" where
  "ticks_of envs i = (if i < length envs then Cycle (envs ! i) else Interrupt)"

text \<open>
  The severity the specification designates for a log record, where it
  designates one: the classifications (section 4.2 step 2:
  \<open>SignificantMove\<close> warning, \<open>CriticalDrawdown\<close> and \<open>MarginCallRisk\<close>
  critical) and the sustained-failure alert (step 4: critical).  For the other
  records (failures, status, start and stop) it fixes no severity, so any
  level is accepted.
\<close>

fun level_ok :: "level \<Rightarrow> event \<Rightarrow> bool" where
  "level_ok l (EquityChangeAlert _) = (l = WARNING)"
| "level_ok l (EquityDrawdown _) = (l = CRITICAL)"
| "level_ok l (MarginLevelAlert _) = (l = CRITICAL)"
| "level_ok l (ConsecutiveErrors _) = (l = CRITICAL)"
| "level_ok l _ = True"

fun well_leveled :: "effect \<Rightarrow> bool" where
  "well_leveled (Log l ev) = level_ok l ev"
| "well_leveled _ = True"

text \<open>
  The error counter of the specification (section 4.2 step 3): a natural
  number, decremented (not below 0) for each check that succeeded and
  incremented for each that failed, the liveness check first.  A cycle's
  outcome is read off the collaborators' answers: the process is alive when
  the \<open>tasklist\<close> output lists \<open>python.exe\<close>, the account check succeeds
  when the module is loaded, the terminal initialises and returns account data.
\<close>

definition cycle_outcome :: "bool \<Rightarrow> cycle_env \<Rightarrow> bool \<times> bool" where
  "cycle_outcome m env =
     ((case tasklist env of None \<Rightarrow> False | Some s \<Rightarrow> sublist ''python.exe'' s),
      m \<and> init_ok (mt5 env) \<and> account (mt5 env) \<noteq> None)"

definition count_tick :: "bool \<Rightarrow> nat \<Rightarrow> nat" where
  "count_tick ok c = (if ok then c - 1 else Suc c)"

fun decay :: "(bool \<times> bool) list \<Rightarrow> nat \<Rightarrow> nat" where
  "decay [] c = c"
| "decay ((process_ok, account_ok) # outcomes) c = decay outcomes (count_tick account_ok (count_tick process_ok c))"

section \<open>Lemmas\<close>

lemma run_ticks_terminates_from:
  "\<forall>env. ticks (i + k) \<noteq> Cycle env \<Longrightarrow> \<exists>r. run_ticks m iv ticks i a acc = Some r"
proof (induction k arbitrary: i a acc)
  case 0
  then show ?case by (cases "ticks i") (auto simp: run_ticks.simps [of m iv ticks i] split: prod.splits)
next
  case (Suc k)
  show ?case
  proof (cases "ticks i")
    case Interrupt
    then show ?thesis by (simp add: run_ticks.simps)
  next
    case (InterruptDuring ph env)
    then show ?thesis by (simp add: run_ticks.simps split: prod.splits)
  next
    case (Cycle env)
    have "\<forall>env. ticks (Suc i + k) \<noteq> Cycle env" using Suc.prems by simp
    then have "\<exists>r. run_ticks m iv ticks (Suc i) a' acc' = Some r" for a' acc'
      by (rule Suc.IH)
    with Cycle show ?thesis
      by (auto simp: run_ticks.simps [of m iv ticks i] split: prod.splits sum.splits)
  qed
qed

text \<open>
  C24: the loop returns as soon as the operator's interrupt comes: if some
  tick of the sequence is an interrupt, in the sleep or inside a cycle, the
  run ends (with the shutdown log, or earlier with an exception).
\<close>

theorem monitor_loop_ticks_terminates:
  "\<forall>env. ticks n \<noteq> Cycle env \<Longrightarrow> \<exists>r. monitor_loop_ticks m iv ticks a = Some r"
  using run_ticks_terminates_from [of ticks 0 n] by (simp add: monitor_loop_ticks_def)

lemma run_ticks_ends:
  assumes "run_ticks m iv ticks i a acc = Some res"
  shows "agent_wf a \<longrightarrow> nonzero_baseline a \<longrightarrow> \<not> (\<forall>n. \<exists>env. ticks n = Cycle env \<and> nonzero_reads env)"
proof (rule run_ticks.raw_induct [where P = "\<lambda>m iv ticks i a acc res.
          agent_wf a \<longrightarrow> nonzero_baseline a \<longrightarrow> \<not> (\<forall>n. \<exists>env. ticks n = Cycle env \<and> nonzero_reads env)",
          OF _ assms])
  fix f m iv ticks i a acc res
  assume IH: "\<And>m iv ticks i a acc res. f m iv ticks i a acc = Some res \<Longrightarrow>
          agent_wf a \<longrightarrow> nonzero_baseline a \<longrightarrow> \<not> (\<forall>n. \<exists>env. ticks n = Cycle env \<and> nonzero_reads env)"
    and step: "(case ticks i of
        Interrupt \<Rightarrow> Some (Inr a, acc @ [Log INFO AgentStopped, Print PrintStopped])
      | InterruptDuring ph env \<Rightarrow>
          (case interrupted_cycle m ph env a of
             (a', es) \<Rightarrow> Some (Inr a', acc @ es @ [Log INFO AgentStopped, Print PrintStopped]))
      | Cycle env \<Rightarrow>
          (case monitor_cycle m iv env a of
             (Inl ex, es) \<Rightarrow> Some (Inl ex, acc @ es)
           | (Inr a', es) \<Rightarrow> f m iv ticks (Suc i) a' (acc @ es))) = Some res"
  show "agent_wf a \<longrightarrow> nonzero_baseline a \<longrightarrow> \<not> (\<forall>n. \<exists>env. ticks n = Cycle env \<and> nonzero_reads env)"
  proof (intro impI notI)
    assume w: "agent_wf a" and z: "nonzero_baseline a" and r: "\<forall>n. \<exists>env. ticks n = Cycle env \<and> nonzero_reads env"
    then obtain env where t: "ticks i = Cycle env" and "nonzero_reads env" by blast
    from safe_cycle [OF this(2) w z] obtain a' es where
      c: "monitor_cycle m iv env a = (Inr a', es)" and z': "nonzero_baseline a'"
      by blast
    from monitor_cycle_wf [OF c w] have w': "agent_wf a'" by simp
    from step t c have "f m iv ticks (Suc i) a' (acc @ es) = Some res" by simp
    from IH [OF this] w' z' r show False by blast
  qed
qed

text \<open>
  C25: without an interrupt the loop never ends by itself: from a well-formed
  state without a zero baseline, when every tick is a cycle that reads no
  zero balance or equity, no collaborator failure stops it (specification
  section 7).
\<close>

theorem monitor_loop_ticks_runs_forever:
  assumes "\<forall>n. \<exists>env. ticks n = Cycle env \<and> nonzero_reads env"
    and "agent_wf a" and "nonzero_baseline a"
  shows "monitor_loop_ticks m iv ticks a = None"
proof (rule ccontr)
  assume "monitor_loop_ticks m iv ticks a \<noteq> None"
  then obtain res where "run_ticks m iv ticks 0 a
      [Log INFO AgentStarted, Print (PrintRunning iv), Print PrintPressCtrlC] = Some res"
    by (auto simp: monitor_loop_ticks_def)
  from run_ticks_ends [OF this] assms show False by blast
qed

lemma run_ticks_skip:
  assumes "\<forall>j<k. \<exists>e. ticks (i + j) = Cycle e \<and> nonzero_reads e" and "agent_wf a" and "nonzero_baseline a"
  shows "\<exists>a' acc'. agent_wf a' \<and> nonzero_baseline a'
           \<and> run_ticks m iv ticks i a acc = run_ticks m iv ticks (i + k) a' (acc @ acc')"
  using assms
proof (induction k arbitrary: i a acc)
  case 0
  then show ?case by (metis add_0_right append_Nil2)
next
  case (Suc k)
  obtain e where t: "ticks i = Cycle e" and r: "nonzero_reads e" using Suc.prems(1) by fastforce
  from safe_cycle [OF r Suc.prems(2,3)] obtain a1 es where
    c: "monitor_cycle m iv e a = (Inr a1, es)" and z1: "nonzero_baseline a1" by blast
  have w1: "agent_wf a1" using monitor_cycle_wf [OF c Suc.prems(2)] by simp
  have "\<forall>j<k. \<exists>e. ticks (Suc i + j) = Cycle e \<and> nonzero_reads e" using Suc.prems(1) by fastforce
  from Suc.IH [OF this w1 z1, where acc = "acc @ es"] obtain a' acc' where
    "agent_wf a'" "nonzero_baseline a'"
    "run_ticks m iv ticks (Suc i) a1 (acc @ es) = run_ticks m iv ticks (Suc i + k) a' ((acc @ es) @ acc')"
    by blast
  moreover have "run_ticks m iv ticks i a acc = run_ticks m iv ticks (Suc i) a1 (acc @ es)"
    using t c by (simp add: run_ticks.simps [of m iv ticks i])
  ultimately show ?case by (metis add_Suc_shift add_Suc_right append_assoc)
qed

text \<open>
  C30: an interrupt inside the account check is honoured at once, not at the
  next sleep (specification section 4.3 says otherwise): the run ends right
  after \<open>mt5.initialize()\<close>, with the shutdown log and without
  \<open>mt5.shutdown()\<close>, leaving the terminal connection open.
\<close>

theorem monitor_loop_ticks_interrupt_in_session:
  assumes "ticks n = InterruptDuring AccountCheck env"
    and "\<forall>j<n. \<exists>e. ticks j = Cycle e \<and> nonzero_reads e" and "agent_wf a" and "nonzero_baseline a"
  shows "\<exists>a' pre. monitor_loop_ticks True iv ticks a
                   = Some (Inr a', pre @ [Mt5Initialize, Log INFO AgentStopped, Print PrintStopped])"
proof -
  let ?start = "[Log INFO AgentStarted, Print (PrintRunning iv), Print PrintPressCtrlC]"
  have "\<forall>j<n. \<exists>e. ticks (0 + j) = Cycle e \<and> nonzero_reads e" using assms(2) by simp
  from run_ticks_skip [OF this assms(3,4), of True iv ?start] obtain a1 acc' where
    "run_ticks True iv ticks 0 a ?start = run_ticks True iv ticks (0 + n) a1 (?start @ acc')"
    by blast
  then show ?thesis using assms(1)
    by (auto simp: monitor_loop_ticks_def run_ticks.simps [of True iv ticks n] interrupted_cycle_def
             split: prod.splits)
qed

lemma run_ticks_list:
  assumes "\<forall>j < length envs. ticks (i + j) = Cycle (envs ! j)" and "ticks (i + length envs) = Interrupt"
  shows "run_ticks m iv ticks i a acc =
           Some (case monitor_cycles m iv envs a of
                   (Inl ex, es) \<Rightarrow> (Inl ex, acc @ es)
                 | (Inr a', es) \<Rightarrow> (Inr a', acc @ es @ [Log INFO AgentStopped, Print PrintStopped]))"
  using assms
proof (induction envs arbitrary: i a acc)
  case Nil
  then show ?case by (simp add: run_ticks.simps)
next
  case (Cons env envs)
  from Cons.prems(1) have t: "ticks i = Cycle env" by (metis add_0_right length_Cons nth_Cons_0 zero_less_Suc)
  have p1: "\<forall>j < length envs. ticks (Suc i + j) = Cycle (envs ! j)" using Cons.prems(1) by auto
  have p2: "ticks (Suc i + length envs) = Interrupt" using Cons.prems(2) by simp
  show ?case
    using Cons.IH [OF p1 p2] t
    by (auto simp: run_ticks.simps [of m iv ticks i] split: prod.splits sum.splits)
qed

text \<open>
  The finite-list model \<open>monitor_loop\<close> of \<open>Loop\<close> is the loop over the tick
  sequence made of the list's cycles and then the interrupt.
\<close>

lemma monitor_loop_ticks_list:
  "monitor_loop_ticks m iv (ticks_of envs) a = Some (monitor_loop m iv envs a)"
  using run_ticks_list [of envs "ticks_of envs" 0 m iv a
     "[Log INFO AgentStarted, Print (PrintRunning iv), Print PrintPressCtrlC]"]
  by (auto simp: monitor_loop_ticks_def monitor_loop_def ticks_of_def split: prod.splits sum.splits)


subsection \<open>Interrupted cycles\<close>

lemma check_account_health_starts:
  "m \<Longrightarrow> \<exists>rest. snd (check_account_health m r a) = Mt5Initialize # rest"
  by (auto simp: check_account_health_def split: option.splits sum.splits)

lemma check_bot_process_starts: "\<exists>rest. snd (check_bot_process out) = RunTasklist # rest"
  by (simp add: check_bot_process_def split: option.splits)

lemma interrupted_cycle_prefix:
  "prefix (snd (interrupted_cycle m ph env a)) (snd (monitor_cycle m iv env a))
   \<and> (ph = AccountCheck \<longrightarrow> fst (interrupted_cycle m ph env a)
        = a\<lparr>error_count := update_count (fst (check_bot_process (tasklist env))) (error_count a)\<rparr>)"
proof -
  obtain ok e1 where b: "check_bot_process (tasklist env) = (ok, e1)" by fastforce
  let ?a1 = "a\<lparr>error_count := update_count ok (error_count a)\<rparr>"
  obtain res e2 where h: "check_account_health m (mt5 env) ?a1 = (res, e2)" by fastforce
  have c: "\<exists>rest. snd (monitor_cycle m iv env a) = e1 @ e2 @ rest"
    using b h by (auto simp: monitor_cycle_def Let_def split: sum.splits)
  have e1: "\<exists>rest. e1 = RunTasklist # rest" using check_bot_process_starts [of "tasklist env"] b by simp
  have e2: "m \<Longrightarrow> \<exists>rest. e2 = Mt5Initialize # rest"
    using check_account_health_starts [of m "mt5 env" ?a1] h by simp
  show ?thesis
  proof (cases ph)
    case BotCheck
    with c e1 show ?thesis by (auto simp: interrupted_cycle_def)
  next
    case AccountCheck
    with c e2 b show ?thesis by (cases m) (auto simp: interrupted_cycle_def)
  qed
qed

subsection \<open>Effects of a cycle and of a run\<close>

text \<open>A property of single effects holds of a cycle's trace when it holds of each part.\<close>

lemma monitor_cycle_effects:
  assumes "\<And>out. list_all P (snd (check_bot_process out))"
    and "\<And>m r a. list_all P (snd (check_account_health m r a))"
    and "\<And>a. list_all P (alert_check a)" and "\<And>n. P (Sleep n)"
  shows "list_all P (snd (monitor_cycle m iv env a))"
proof -
  obtain ok e1 where b: "check_bot_process (tasklist env) = (ok, e1)" by fastforce
  let ?a1 = "a\<lparr>error_count := update_count ok (error_count a)\<rparr>"
  obtain res e2 where h: "check_account_health m (mt5 env) ?a1 = (res, e2)" by fastforce
  have "list_all P e1" using assms(1) [of "tasklist env"] b by simp
  moreover have "list_all P e2" using assms(2) [of m "mt5 env" ?a1] h by simp
  ultimately show ?thesis using b h assms(3,4)
    by (auto simp: monitor_cycle_def Let_def split: sum.splits)
qed

lemma monitor_cycles_effects:
  assumes "\<And>env a. list_all P (snd (monitor_cycle m iv env a))"
  shows "list_all P (snd (monitor_cycles m iv envs a))"
proof (induction envs arbitrary: a)
  case Nil
  then show ?case by simp
next
  case (Cons env envs)
  obtain r es where c: "monitor_cycle m iv env a = (r, es)" by fastforce
  have "list_all P es" using assms [of env a] c by simp
  with Cons.IH c show ?case by (auto split: sum.splits prod.splits) (metis snd_conv)
qed

subsection \<open>Log severities\<close>

lemma leveled_check_bot_process [simp]: "list_all well_leveled (snd (check_bot_process out))"
  by (simp add: check_bot_process_def split: option.splits)

lemma leveled_change_alerts:
  "change_alerts a bal eq = Inr alerts \<Longrightarrow> list_all well_leveled alerts"
  by (auto simp: change_alerts_def pct_change_def equity_change_alerts_def split: option.splits sum.splits)

lemma leveled_check_account_health [simp]: "list_all well_leveled (snd (check_account_health m r a))"
  using check_account_health_cases [of m r a "fst (check_account_health m r a)" "snd (check_account_health m r a)"]
  by (auto simp: margin_alerts_def dest: leveled_change_alerts)

lemma leveled_monitor_cycle: "list_all well_leveled (snd (monitor_cycle m iv env a))"
  by (intro monitor_cycle_effects) (simp_all add: alert_check_def)

lemma leveled_monitor_cycles: "list_all well_leveled (snd (monitor_cycles m iv envs a))"
  by (intro monitor_cycles_effects leveled_monitor_cycle)

lemma leveled_interrupted_cycle: "list_all well_leveled (snd (interrupted_cycle m ph env a))"
  by (simp add: interrupted_cycle_def split: phase.splits prod.splits)
    (metis leveled_check_bot_process snd_conv)

text \<open>
  The same over the finite-list model of the loop; \<open>monitor_loop_ticks_leveled\<close>
  below states it of every run of the tick loop.
\<close>

lemma monitor_loop_leveled: "list_all well_leveled (snd (monitor_loop m iv envs a))"
  using leveled_monitor_cycles [of m iv envs a]
  by (auto simp: monitor_loop_def Let_def split: prod.splits sum.splits)


subsection \<open>The counter over a whole run\<close>

lemma update_count_tick: "0 \<le> c \<Longrightarrow> update_count ok c = int (count_tick ok (nat c))"
  by (auto simp: update_count_def count_tick_def)

lemma check_bot_process_outcome: "fst (check_bot_process (tasklist env)) = fst (cycle_outcome m env)"
  by (simp add: check_bot_process_def cycle_outcome_def bot_image_def py_str_in_sublist split: option.splits)

lemma monitor_cycles_count:
  "monitor_cycles m iv envs a = (Inr a', es) \<Longrightarrow> 0 \<le> error_count a \<Longrightarrow>
     error_count a' = int (decay (map (cycle_outcome m) envs) (nat (error_count a)))"
proof (induction envs arbitrary: a es)
  case Nil
  then show ?case by simp
next
  case (Cons env envs)
  obtain a1 es1 where c: "monitor_cycle m iv env a = (Inr a1, es1)"
    using Cons.prems(1) by (auto split: prod.splits sum.splits)
  have n1: "error_count a1 = update_count (snd (cycle_outcome m env))
                               (update_count (fst (cycle_outcome m env)) (error_count a))"
    using monitor_cycle_count [OF c] check_bot_process_outcome [of env m] by (simp add: cycle_outcome_def)
  have "0 \<le> error_count a1" using n1 Cons.prems(2) by simp
  moreover obtain es' where "monitor_cycles m iv envs a1 = (Inr a', es')"
    using Cons.prems(1) c by (auto split: prod.splits)
  ultimately have "error_count a' = int (decay (map (cycle_outcome m) envs) (nat (error_count a1)))"
    using Cons.IH by blast
  moreover have "nat (error_count a1) = count_tick (snd (cycle_outcome m env))
                                          (count_tick (fst (cycle_outcome m env)) (nat (error_count a)))"
    using n1 Cons.prems(2) by (simp add: update_count_tick)
  ultimately show ?case by (cases "cycle_outcome m env") simp
qed

text \<open>
  C31: over any run of the program that ends by the interrupt, the final
  counter is the specification's decaying counter run on the outcomes of the
  checks, cycle by cycle: it depends on nothing else (no balance, no alert).
\<close>

theorem agent_main_count:
  "agent_main m envs = (Inr a', es) \<Longrightarrow> error_count a' = int (decay (map (cycle_outcome m) envs) 0)"
  using monitor_cycles_count [of m 300 envs init_agent a']
  by (auto simp: agent_main_def monitor_loop_def init_agent_def Let_def split: prod.splits sum.splits)


subsection \<open>The shape of a run of the tick loop\<close>

text \<open>
  A run that returns extends the effects performed so far by well-levelled
  effects; when it returns normally (by an interrupt) they end with the stop
  record and message.
\<close>

lemma run_ticks_shape:
  assumes "run_ticks m iv ticks i a acc = Some res"
  shows "\<exists>pre. snd res = acc @ pre \<and> list_all well_leveled pre
           \<and> (\<forall>a'. fst res = Inr a' \<longrightarrow> (\<exists>p. pre = p @ [Log INFO AgentStopped, Print PrintStopped]))"
proof (rule run_ticks.raw_induct [where P = "\<lambda>m iv ticks i a acc res.
          \<exists>pre. snd res = acc @ pre \<and> list_all well_leveled pre
           \<and> (\<forall>a'. fst res = Inr a' \<longrightarrow> (\<exists>p. pre = p @ [Log INFO AgentStopped, Print PrintStopped]))",
          OF _ assms])
  fix f m iv ticks i a acc res
  assume IH: "\<And>m iv ticks i a acc res. f m iv ticks i a acc = Some res \<Longrightarrow>
          \<exists>pre. snd res = acc @ pre \<and> list_all well_leveled pre
           \<and> (\<forall>a'. fst res = Inr a' \<longrightarrow> (\<exists>p. pre = p @ [Log INFO AgentStopped, Print PrintStopped]))"
    and step: "(case ticks i of
        Interrupt \<Rightarrow> Some (Inr a, acc @ [Log INFO AgentStopped, Print PrintStopped])
      | InterruptDuring ph env \<Rightarrow>
          (case interrupted_cycle m ph env a of
             (a', es) \<Rightarrow> Some (Inr a', acc @ es @ [Log INFO AgentStopped, Print PrintStopped]))
      | Cycle env \<Rightarrow>
          (case monitor_cycle m iv env a of
             (Inl ex, es) \<Rightarrow> Some (Inl ex, acc @ es)
           | (Inr a', es) \<Rightarrow> f m iv ticks (Suc i) a' (acc @ es))) = Some res"
  show "\<exists>pre. snd res = acc @ pre \<and> list_all well_leveled pre
           \<and> (\<forall>a'. fst res = Inr a' \<longrightarrow> (\<exists>p. pre = p @ [Log INFO AgentStopped, Print PrintStopped]))"
  proof (cases "ticks i")
    case Interrupt
    with step show ?thesis by auto
  next
    case (InterruptDuring ph env)
    obtain a' es where c: "interrupted_cycle m ph env a = (a', es)" by fastforce
    have "list_all well_leveled es" using leveled_interrupted_cycle [of m ph env a] c by simp
    with step InterruptDuring c show ?thesis by auto
  next
    case (Cycle env)
    obtain r es where c: "monitor_cycle m iv env a = (r, es)" by fastforce
    have l: "list_all well_leveled es" using leveled_monitor_cycle [of m iv env a] c by simp
    show ?thesis
    proof (cases r)
      case (Inl ex)
      with step Cycle c l show ?thesis by auto
    next
      case (Inr a')
      with step Cycle c have "f m iv ticks (Suc i) a' (acc @ es) = Some res" by simp
      from IH [OF this] obtain pre where
        "snd res = (acc @ es) @ pre \<and> list_all well_leveled pre
         \<and> (\<forall>b. fst res = Inr b \<longrightarrow> (\<exists>p. pre = p @ [Log INFO AgentStopped, Print PrintStopped]))"
        by (elim exE)
      with l show ?thesis by (intro exI [of _ "es @ pre"]) auto
    qed
  qed
qed

text \<open>
  C32: every log record of every run of the loop that returns, whether it is
  stopped in the sleep, inside a cycle, or by an exception, carries the
  severity the specification designates for its message where it designates
  one: warning for an equity move, critical for a drawdown, a margin-call
  risk and the sustained-failure alert.
\<close>

theorem monitor_loop_ticks_leveled:
  "monitor_loop_ticks m iv ticks a = Some (r, es) \<Longrightarrow> list_all well_leveled es"
  unfolding monitor_loop_ticks_def by (drule run_ticks_shape) auto

text \<open>
  C33: with the agent's logging configuration (level INFO), the log file of
  a run the operator stops holds every record the run emits, in emission
  order, from the start record to the stop record.
\<close>

theorem monitor_loop_ticks_log_file:
  assumes "monitor_loop_ticks m iv ticks a = Some (Inr a', es)"
  shows "log_file agent_logging es = log_records es
         \<and> hd (log_file agent_logging es) = (INFO, AgentStarted)
         \<and> last (log_file agent_logging es) = (INFO, AgentStopped)"
proof -
  from run_ticks_shape [OF assms [unfolded monitor_loop_ticks_def]] obtain p where
    "es = [Log INFO AgentStarted, Print (PrintRunning iv), Print PrintPressCtrlC]
          @ p @ [Log INFO AgentStopped, Print PrintStopped]"
    by auto
  then show ?thesis by simp
qed

end
