(* ===== verification/Report.thy ===== *)
theory Report
  imports Prelude
begin

text \<open>
  The account report (\<open>src/get_account_status.py\<close>, \<open>main\<close>): the exit paths
  when the terminal is unavailable, the tally of today's closing deals
  (lines 61--82), and the seven-day performance with its per-symbol table
  (lines 95--124).  Deals come from \<open>mt5.history_deals_get\<close>, an input.  The
  per-symbol dictionary is an association list in insertion order, as a
  Python \<open>dict\<close> iterates; \<open>sorted(..., reverse=True)\<close> is the library's
  stable \<open>sort_key\<close> on the negated profit.
\<close>

section \<open>Deals\<close>

text \<open>The fields of a deal record the script reads (\<open>type\<close> renamed \<open>deal_type\<close>).\<close>

record deal =
  ticket :: int
  symbol :: string
  deal_type :: int
  volume :: real
  price :: real
  deal_profit :: real
  entry :: int

section \<open>The tally of closing deals\<close>

record tally =
  total_profit :: real
  wins :: nat
  losses :: nat

definition tally0 :: tally where
  "tally0 = \<lparr>total_profit = 0, wins = 0, losses = 0\<rparr>"

text \<open>Lines 66--72 (and 102--108): one deal of the \<open>for\<close> loop.\<close>

definition tally_step :: "deal \<Rightarrow> tally \<Rightarrow> tally" where
  "tally_step d t =
     (if entry d = 1 then
        (let p = deal_profit d;
             t' = t\<lparr>total_profit := total_profit t + p\<rparr>
         in if p > 0 then t'\<lparr>wins := wins t' + 1\<rparr>
            else if p < 0 then t'\<lparr>losses := losses t' + 1\<rparr>
            else t')
      else t)"

text \<open>Lines 62--76: today's deals.\<close>

definition today_tally :: "deal list \<Rightarrow> tally" where
  "today_tally ds = fold tally_step ds tally0"

text \<open>Lines 81--82 and 117--118: the win rate, printed only when some deal won or lost.\<close>

definition win_rate :: "tally \<Rightarrow> real option" where
  "win_rate t = (if wins t + losses t > 0
                 then Some (real (wins t) / real (wins t + losses t) * 100) else None)"

text \<open>Line 120: the average profit per trade, 0 when no deal won or lost.\<close>

definition avg_per_trade :: "tally \<Rightarrow> real" where
  "avg_per_trade t = (if wins t + losses t > 0 then total_profit t / real (wins t + losses t) else 0)"

section \<open>The per-symbol table\<close>

record sym_stat =
  sym_profit :: real
  sym_count :: nat

type_synonym by_symbol = "(string \<times> sym_stat) list"

text \<open>
  Lines 110--113: a new symbol is appended with zero profit and count, then
  its entry is increased.
\<close>

fun by_symbol_add :: "string \<Rightarrow> real \<Rightarrow> by_symbol \<Rightarrow> by_symbol" where
  "by_symbol_add s p [] = [(s, \<lparr>sym_profit = 0 + p, sym_count = 0 + 1\<rparr>)]"
| "by_symbol_add s p ((k, v) # kvs) =
     (if k = s then (k, v\<lparr>sym_profit := sym_profit v + p, sym_count := sym_count v + 1\<rparr>) # kvs
      else (k, v) # by_symbol_add s p kvs)"

text \<open>Lines 101--113: one deal of the seven-day loop.\<close>

definition week_step :: "deal \<Rightarrow> tally \<times> by_symbol \<Rightarrow> tally \<times> by_symbol" where
  "week_step d tb =
     (case tb of (t, bs) \<Rightarrow>
        if entry d = 1 then (tally_step d t, by_symbol_add (symbol d) (deal_profit d) bs)
        else (t, bs))"

definition week_stats :: "deal list \<Rightarrow> tally \<times> by_symbol" where
  "week_stats ds = fold week_step ds (tally0, [])"

text \<open>Line 123: the table printed by decreasing profit.\<close>

definition symbol_ranking :: "by_symbol \<Rightarrow> by_symbol" where
  "symbol_ranking bs = sort_key (\<lambda>kv. - sym_profit (snd kv)) bs"

section \<open>The whole report\<close>

datatype report_exit = ExitInitFailed | ExitNoAccount

record report =
  n_positions :: nat
  today :: "tally option"
  week :: "(tally \<times> by_symbol) option"
  shutdown_called :: bool

text \<open>
  Lines 9--128.  \<open>sys.exit(1)\<close> is an \<open>Inl\<close> exit; the report records which
  sections were printed with data (\<open>None\<close>: "No trades today" / "No trade
  history available") and whether \<open>mt5.shutdown()\<close> ran.  An empty or
  \<open>None\<close> answer of \<open>history_deals_get\<close> is the empty list here; the
  \<open>account_info\<close> fields the script only prints are not modelled.
\<close>

definition account_report ::
  "bool \<Rightarrow> bool \<Rightarrow> nat \<Rightarrow> deal list \<Rightarrow> deal list \<Rightarrow> (report_exit \<times> bool) + report" where
  "account_report init_ok has_account n_pos today_deals week_deals =
     (if \<not> init_ok then Inl (ExitInitFailed, False)
      else if \<not> has_account then Inl (ExitNoAccount, True)
      else Inr \<lparr>n_positions = n_pos,
                today = (if today_deals = [] then None else Some (today_tally today_deals)),
                week = (if week_deals = [] then None else Some (week_stats week_deals)),
                shutdown_called = True\<rparr>)"

declare tally0_def [model_defs] tally_step_def [model_defs] today_tally_def [model_defs]
  win_rate_def [model_defs] avg_per_trade_def [model_defs] week_step_def [model_defs]
  week_stats_def [model_defs] symbol_ranking_def [model_defs] account_report_def [model_defs]

section \<open>Specification of the tally\<close>

text \<open>The closing deals (\<open>entry == 1\<close>) of a list.\<close>

definition exits :: "deal list \<Rightarrow> deal list" where
  "exits ds = filter (\<lambda>d. entry d = 1) ds"

text \<open>
  The per-symbol table as a grouping: one entry per symbol of a closing deal,
  in the order of first occurrence, holding the sum and the number of that
  symbol's closing deals.
\<close>

definition symbol_group :: "deal list \<Rightarrow> by_symbol" where
  "symbol_group ds =
     map (\<lambda>s. (s, let xs = filter (\<lambda>d. symbol d = s) (exits ds)
                 in \<lparr>sym_profit = sum_list (map deal_profit xs), sym_count = length xs\<rparr>))
         (rev (remdups (rev (map symbol (exits ds)))))"

section \<open>Lemmas\<close>

lemma exits_Cons [simp]: "exits (d # ds) = (if entry d = 1 then d # exits ds else exits ds)"
  by (simp add: exits_def)
lemma exits_Nil [simp]: "exits [] = []"
  by (simp add: exits_def)
lemma exits_append [simp]: "exits (xs @ ys) = exits xs @ exits ys"
  by (simp add: exits_def)

lemma fold_tally_step:
  "fold tally_step ds t =
     t\<lparr>total_profit := total_profit t + sum_list (map deal_profit (exits ds)),
       wins := wins t + length (filter (\<lambda>d. deal_profit d > 0) (exits ds)),
       losses := losses t + length (filter (\<lambda>d. deal_profit d < 0) (exits ds))\<rparr>"
  by (induction ds arbitrary: t) (auto simp: tally_step_def Let_def algebra_simps)

text \<open>
  C17: the tally of a deal list sums the profits of its closing deals and
  counts those with positive and with negative profit.
\<close>

theorem today_tally_spec:
  "today_tally ds =
     \<lparr>total_profit = sum_list (map deal_profit (exits ds)),
      wins = length (filter (\<lambda>d. deal_profit d > 0) (exits ds)),
      losses = length (filter (\<lambda>d. deal_profit d < 0) (exits ds))\<rparr>"
  by (simp add: today_tally_def fold_tally_step tally0_def)

lemma fst_fold_week_step: "fst (fold week_step ds (t, bs)) = fold tally_step ds t"
  by (induction ds arbitrary: t bs) (auto simp: week_step_def tally_step_def)

lemma map_of_by_symbol_add:
  "map_of (by_symbol_add s p bs) k =
     (if k = s then Some (case map_of bs k of
                            None \<Rightarrow> \<lparr>sym_profit = 0 + p, sym_count = 0 + 1\<rparr>
                          | Some v \<Rightarrow> v\<lparr>sym_profit := sym_profit v + p, sym_count := sym_count v + 1\<rparr>)
      else map_of bs k)"
  by (induction bs rule: by_symbol_add.induct) auto

lemma snd_week_stats_snoc:
  "snd (week_stats (ds @ [d])) =
     (if entry d = 1 then by_symbol_add (symbol d) (deal_profit d) (snd (week_stats ds))
      else snd (week_stats ds))"
  by (cases "week_stats ds") (simp add: week_stats_def week_step_def)

text \<open>
  C18: the per-symbol table holds, for each symbol with a closing deal, the
  sum of the profits and the number of its closing deals, and nothing for
  other symbols.
\<close>

theorem week_stats_by_symbol:
  "map_of (snd (week_stats ds)) k =
     (let xs = filter (\<lambda>d. symbol d = k) (exits ds)
      in if xs = [] then None
         else Some \<lparr>sym_profit = sum_list (map deal_profit xs), sym_count = length xs\<rparr>)"
proof (induction ds rule: rev_induct)
  case Nil
  then show ?case by (simp add: week_stats_def)
next
  case (snoc d ds)
  then show ?case
    by (auto simp: snd_week_stats_snoc map_of_by_symbol_add Let_def split: option.splits if_splits)
qed

lemma ratio_percent_100:
  assumes "0 < w + (l::nat)"
  shows "real w / real (w + l) * 100 = 100 \<longleftrightarrow> l = 0"
proof -
  have d: "0 < real w + real l" using assms by linarith
  have "real w / real (w + l) * 100 = 100 \<longleftrightarrow> real w = real w + real l"
    using d by (simp add: field_simps)
  then show ?thesis by simp
qed

text \<open>
  C19: the win rate printed for today's deals is a percentage of the closing
  deals that won or lost: it is 100 exactly when no closing deal lost and 0
  exactly when none won.
\<close>

theorem win_rate_extremes:
  assumes "win_rate (today_tally ds) = Some r"
  shows "0 \<le> r \<and> r \<le> 100
         \<and> (r = 100 \<longleftrightarrow> (\<forall>d \<in> set (exits ds). \<not> deal_profit d < 0))
         \<and> (r = 0 \<longleftrightarrow> (\<forall>d \<in> set (exits ds). \<not> deal_profit d > 0))"
proof -
  let ?w = "length (filter (\<lambda>d. deal_profit d > 0) (exits ds))"
  let ?l = "length (filter (\<lambda>d. deal_profit d < 0) (exits ds))"
  have t: "wins (today_tally ds) = ?w" "losses (today_tally ds) = ?l"
    by (simp_all add: today_tally_def fold_tally_step tally0_def)
  with assms have pos: "0 < ?w + ?l" and r: "r = real ?w / real (?w + ?l) * 100"
    by (auto simp: win_rate_def split: if_splits)
  have "r = 100 \<longleftrightarrow> ?l = 0" using ratio_percent_100 [OF pos] by (simp add: r)
  moreover have "r = 0 \<longleftrightarrow> ?w = 0"
  proof -
    have "real ?w + real ?l \<noteq> 0" using pos by linarith
    then show ?thesis by (simp add: r)
  qed
  moreover have "0 \<le> r \<and> r \<le> 100" using pos by (simp add: r divide_le_eq)
  ultimately show ?thesis by (simp add: filter_empty_conv)
qed

lemma week_stats_tally: "fst (week_stats ds) = today_tally ds"
  by (simp add: week_stats_def today_tally_def fst_fold_week_step)

text \<open>
  C23: the report exits with status 1 exactly when the terminal cannot be
  initialised (without calling \<open>mt5.shutdown()\<close>) or returns no account
  data (after calling it); otherwise it ends with the shutdown.
\<close>

theorem account_report_exit:
  "(account_report i h n td wd = Inl x \<longleftrightarrow>
      (\<not> i \<and> x = (ExitInitFailed, False)) \<or> (i \<and> \<not> h \<and> x = (ExitNoAccount, True)))
   \<and> (account_report i h n td wd = Inr rep \<longrightarrow> shutdown_called rep)"
  by (auto simp: account_report_def)


lemma by_symbol_add_map:
  "distinct ks \<Longrightarrow> by_symbol_add s p (map (\<lambda>k. (k, f k)) ks) =
     (if s \<in> set ks
      then map (\<lambda>k. (k, if k = s then (f k)\<lparr>sym_profit := sym_profit (f k) + p, sym_count := sym_count (f k) + 1\<rparr>
                        else f k)) ks
      else map (\<lambda>k. (k, f k)) ks @ [(s, \<lparr>sym_profit = 0 + p, sym_count = 0 + 1\<rparr>)])"
  by (induction ks) auto

lemma symbol_group_snoc:
  "symbol_group (ds @ [d]) =
     (if entry d = 1 then by_symbol_add (symbol d) (deal_profit d) (symbol_group ds) else symbol_group ds)"
proof -
  have "symbol d \<notin> symbol ` set (exits ds) \<Longrightarrow> filter (\<lambda>x. symbol x = symbol d) (exits ds) = []"
    by (auto simp: filter_empty_conv image_iff)
  then show ?thesis by (auto simp: symbol_group_def by_symbol_add_map Let_def intro!: map_cong)
qed

text \<open>
  C28: the fused seven-day loop (lines 101--113) computes what two separate
  passes compute: the tally of today's loop on the same deals, and the
  grouping of the closing deals by symbol in first-occurrence order.
\<close>

theorem week_stats_equiv: "week_stats ds = (today_tally ds, symbol_group ds)"
proof (induction ds rule: rev_induct)
  case Nil
  then show ?case by (simp add: week_stats_def today_tally_def symbol_group_def)
next
  case (snoc d ds)
  have "snd (week_stats (ds @ [d])) = symbol_group (ds @ [d])"
    using snoc.IH by (simp add: snd_week_stats_snoc symbol_group_snoc)
  then show ?case using week_stats_tally [of "ds @ [d]"] by (metis prod.collapse)
qed

end
