(* ===== verification/Filling.thy ===== *)
theory Filling
  imports Prelude
begin

text \<open>
  The filling-mode probe (\<open>src/test_filling_mode.py\<close>, lines 14--43): for
  each symbol of a fixed list, the symbol's \<open>filling_mode\<close> flags (an
  integer from \<open>mt5.symbol_info\<close>, an input) are decoded bit by bit and a
  filling mode is chosen: FOK if bit 0 is set, else IOC if bit 1, else
  RETURN if bit 2, else FOK as a default.  Python's \<open>&\<close> on \<open>int\<close> is
  \<open>AND\<close> on \<open>int\<close>.  The test order built afterwards (lines 52--79) is the
  request the script sends to \<open>mt5.order_check\<close>, whose answer and the
  current price are inputs; \<open>filling_main\<close> adds the calls that open and
  close the terminal session.
\<close>

unbundle bit_operations_syntax

datatype filling_mode = ORDER_FILLING_FOK | ORDER_FILLING_IOC | ORDER_FILLING_RETURN

definition choose_filling :: "int \<Rightarrow> filling_mode \<times> string" where
  "choose_filling fm =
     (if fm AND 1 \<noteq> 0 then (ORDER_FILLING_FOK, ''FOK'')
      else if fm AND 2 \<noteq> 0 then (ORDER_FILLING_IOC, ''IOC'')
      else if fm AND 4 \<noteq> 0 then (ORDER_FILLING_RETURN, ''RETURN'')
      else (ORDER_FILLING_FOK, ''FOK (default)''))"

text \<open>Lines 25--27: the three flags printed as YES/NO.\<close>

record flag_bits =
  fok_bit :: bool
  ioc_bit :: bool
  return_bit :: bool

definition decode_flags :: "int \<Rightarrow> flag_bits" where
  "decode_flags fm = \<lparr>fok_bit = (fm AND 1 \<noteq> 0), ioc_bit = (fm AND 2 \<noteq> 0), return_bit = (fm AND 4 \<noteq> 0)\<rparr>"

text \<open>Line 14.\<close>

definition probe_list :: "string list" where
  "probe_list = [''EURUSD'', ''GBPUSD'', ''USDJPY'', ''EURJPY'', ''GBPJPY'', ''AUDUSD'']"

text \<open>
  Lines 16--43: per symbol, \<open>None\<close> when \<open>symbol_info\<close> returns \<open>None\<close>
  (printed "NOT AVAILABLE", then \<open>continue\<close>), otherwise the decoded flags and
  the chosen mode.
\<close>

definition probe_symbols ::
  "(string \<Rightarrow> int option) \<Rightarrow> string list \<Rightarrow> (string \<times> (flag_bits \<times> filling_mode \<times> string) option) list" where
  "probe_symbols symbol_info syms =
     map (\<lambda>s. (s, case symbol_info s of
                   None \<Rightarrow> None
                 | Some fm \<Rightarrow> Some (decode_flags fm, choose_filling fm))) syms"

declare choose_filling_def [model_defs] decode_flags_def [model_defs]
  probe_list_def [model_defs] probe_symbols_def [model_defs]

text \<open>The flag bit of \<open>symbol_info().filling_mode\<close> that advertises each mode.\<close>

fun mode_flag :: "filling_mode \<Rightarrow> int" where
  "mode_flag ORDER_FILLING_FOK = 1"
| "mode_flag ORDER_FILLING_IOC = 2"
| "mode_flag ORDER_FILLING_RETURN = 4"

text \<open>The three flags put back into an integer (the inverse of \<open>decode_flags\<close>).\<close>

definition encode_flags :: "flag_bits \<Rightarrow> int" where
  "encode_flags b = (if fok_bit b then 1 else 0) OR (if ioc_bit b then 2 else 0) OR (if return_bit b then 4 else 0)"

section \<open>The test order\<close>

text \<open>
  Lines 58--68: the request for one lot of 0.01 EURUSD at the ask price,
  stop loss ten points below; the MetaTrader constants are named by strings.
  \<open>type_filling\<close> is FOK whatever the probe above found.
\<close>

record order_request =
  req_action :: string
  req_symbol :: string
  req_volume :: real
  req_type :: string
  req_price :: real
  req_sl :: real
  type_filling :: filling_mode
  req_type_time :: string
  req_comment :: string

definition test_request :: "real \<Rightarrow> order_request" where
  "test_request price =
     \<lparr>req_action = ''TRADE_ACTION_DEAL'', req_symbol = ''EURUSD'', req_volume = 1 / 100,
      req_type = ''ORDER_TYPE_BUY'', req_price = price, req_sl = price - 1 / 1000,
      type_filling = ORDER_FILLING_FOK, req_type_time = ''ORDER_TIME_GTC'', req_comment = ''filling_test''\<rparr>"

text \<open>What lines 74--77 print: the retcode and comment of the check, or its failure.\<close>

datatype check_report = CheckResult int string | CheckFailed

text \<open>
  Lines 53--79.  \<open>tick\<close> is \<open>mt5.symbol_info_tick(symbol)\<close>'s ask price,
  \<open>None\<close> when it returns \<open>None\<close>: reading \<open>.ask\<close> then raises
  \<open>AttributeError\<close> and the script ends without \<open>mt5.shutdown()\<close>.
  \<open>order_check\<close> is \<open>mt5.order_check\<close>.
\<close>

definition place_test_order ::
  "real option \<Rightarrow> (order_request \<Rightarrow> (int \<times> string) option) \<Rightarrow> (order_request \<times> check_report) py_result" where
  "place_test_order tick order_check =
     (case tick of
        None \<Rightarrow> Inl AttributeError
      | Some ask \<Rightarrow>
          (let request = test_request ask
           in Inr (request, case order_check request of
                              None \<Rightarrow> CheckFailed
                            | Some (retcode, comment) \<Rightarrow> CheckResult retcode comment)))"

text \<open>The whole script (lines 13--79): the probe, then the test order.\<close>

definition filling_script ::
  "(string \<Rightarrow> int option) \<Rightarrow> real option \<Rightarrow> (order_request \<Rightarrow> (int \<times> string) option)
     \<Rightarrow> (string \<times> (flag_bits \<times> filling_mode \<times> string) option) list \<times> (order_request \<times> check_report) py_result" where
  "filling_script symbol_info tick order_check =
     (probe_symbols symbol_info probe_list, place_test_order tick order_check)"

text \<open>
  Lines 5--7 and 79: the session with the terminal around the script.
  \<open>mt5.initialize()\<close> and \<open>mt5.login(...)\<close> are called and their results
  ignored; \<open>mt5.shutdown()\<close> is reached only when the script does not raise.
\<close>

datatype terminal_call = Initialize | Login int string | Shutdown

definition filling_main ::
  "(string \<Rightarrow> int option) \<Rightarrow> real option \<Rightarrow> (order_request \<Rightarrow> (int \<times> string) option)
     \<Rightarrow> terminal_call list \<times> (string \<times> (flag_bits \<times> filling_mode \<times> string) option) list
        \<times> (order_request \<times> check_report) py_result" where
  "filling_main symbol_info tick order_check =
     (case filling_script symbol_info tick order_check of
        (probes, res) \<Rightarrow>
          ([Initialize, Login 102128591 ''MetaQuotes-Demo''] @ (case res of Inl _ \<Rightarrow> [] | Inr _ \<Rightarrow> [Shutdown]),
           probes, res))"

declare test_request_def [model_defs] place_test_order_def [model_defs] filling_script_def [model_defs]
  filling_main_def [model_defs]

section \<open>Lemmas\<close>

lemma bit_seven_iff: "bit (7::int) n \<longleftrightarrow> n < 3"
proof -
  have m: "(7::int) = mask 3" by (simp add: mask_eq_exp_minus_1)
  show ?thesis unfolding m bit_mask_iff by simp
qed

lemma and_low3: "(fm AND 7) AND (2 ^ n) = (if n < 3 then fm AND 2 ^ n else (0::int))"
  by (auto simp: and.assoc intro!: bit_eqI simp: bit_and_iff bit_exp_iff bit_seven_iff)

text \<open>
  C20: the choice depends only on the three low bits of the flags.
\<close>

lemma choose_filling_low_bits: "choose_filling fm = choose_filling (fm AND 7)"
  using and_low3 [of fm 0] and_low3 [of fm 1] and_low3 [of fm 2]
  by (simp add: choose_filling_def)

text \<open>Testing \<open>fm & 2^n\<close> is reading bit \<open>n\<close>.\<close>

lemma and_bit_ne0:
  "(fm::int) AND 1 \<noteq> 0 \<longleftrightarrow> bit fm 0" "fm AND 2 \<noteq> 0 \<longleftrightarrow> bit fm 1" "fm AND 4 \<noteq> 0 \<longleftrightarrow> bit fm 2"
  using and_exp_eq_0_iff_not_bit [of fm 0] and_exp_eq_0_iff_not_bit [of fm 1]
    and_exp_eq_0_iff_not_bit [of fm 2] by simp_all

lemma and_7_zero: "(fm::int) AND 7 = 0 \<longleftrightarrow> fm AND 1 = 0 \<and> fm AND 2 = 0 \<and> fm AND 4 = 0"
proof -
  have l: "fm AND 7 = 0 \<longleftrightarrow> (\<forall>n<3. \<not> bit fm n)"
    by (auto simp: bit_eq_iff bit_and_iff bit_seven_iff)
  show ?thesis using and_bit_ne0 [of fm] by (auto simp: l numeral_3_eq_3 less_Suc_eq numeral_2_eq_2)
qed

lemma mode_flag_set:
  "fm AND mode_flag m \<noteq> 0 \<Longrightarrow>
     (m = ORDER_FILLING_FOK \<and> fm AND 1 \<noteq> 0) \<or> (m = ORDER_FILLING_IOC \<and> fm AND 2 \<noteq> 0)
     \<or> (m = ORDER_FILLING_RETURN \<and> fm AND 4 \<noteq> 0)"
  by (cases m) auto

text \<open>
  C21: when some of the three flags is set, the chosen mode is advertised by
  the symbol, and it is the one with the lowest flag among those advertised.
\<close>

theorem choose_filling_supported:
  assumes "fm AND 7 \<noteq> 0"
  shows "fm AND mode_flag (fst (choose_filling fm)) \<noteq> 0
         \<and> (\<forall>m. fm AND mode_flag m \<noteq> 0 \<longrightarrow> mode_flag (fst (choose_filling fm)) \<le> mode_flag m)"
proof -
  have "fm AND 1 \<noteq> 0 \<or> fm AND 2 \<noteq> 0 \<or> fm AND 4 \<noteq> 0" using assms and_7_zero by blast
  then show ?thesis
    by (auto simp: choose_filling_def dest!: mode_flag_set)
qed

text \<open>
  C22: the default branch, taken exactly when none of the three flags is set,
  answers FOK although the symbol does not advertise it.
\<close>

theorem choose_filling_default:
  "choose_filling fm = (ORDER_FILLING_FOK, ''FOK (default)'') \<longleftrightarrow> fm AND 7 = 0"
  by (auto simp: choose_filling_def and_7_zero)


lemma bit_encode_flags:
  "bit (encode_flags b) n \<longleftrightarrow> (n = 0 \<and> fok_bit b) \<or> (n = 1 \<and> ioc_bit b) \<or> (n = 2 \<and> return_bit b)"
proof -
  have "bit (2::int) n \<longleftrightarrow> n = 1" "bit (4::int) n \<longleftrightarrow> n = 2" "bit (1::int) n \<longleftrightarrow> n = 0"
    using bit_exp_iff [of 1 n] bit_exp_iff [of 2 n] bit_exp_iff [of 0 n] by auto
  then show ?thesis by (auto simp: encode_flags_def bit_or_iff)
qed

text \<open>
  C27: the YES/NO decoding of lines 25--27 loses nothing of the three flag
  bits: decoding an encoding gives the flags back, and encoding the decoded
  flags gives the flag word masked to its three low bits.
\<close>

theorem flags_roundtrip:
  "decode_flags (encode_flags b) = b \<and> encode_flags (decode_flags fm) = fm AND 7"
proof
  show "decode_flags (encode_flags b) = b"
    by (simp add: decode_flags_def and_bit_ne0 bit_encode_flags)
next
  show "encode_flags (decode_flags fm) = fm AND 7"
    by (rule bit_eqI)
      (auto simp: bit_encode_flags decode_flags_def and_bit_ne0 bit_and_iff bit_seven_iff
        numeral_3_eq_3 numeral_2_eq_2 less_Suc_eq)
qed

text \<open>
  C29: the test order ignores the probe: when EURUSD advertises some filling
  mode but not FOK, the probe chooses another mode, and the request still
  asks for FOK, a mode the symbol does not advertise.
\<close>

theorem filling_test_ignores_probe:
  assumes "symbol_info ''EURUSD'' = Some fm" and "fm AND 1 = 0" and "fm AND 7 \<noteq> 0"
    and "filling_script symbol_info tick order_check = (probes, Inr (req, rep))"
  shows "(''EURUSD'', Some (decode_flags fm, choose_filling fm)) \<in> set probes
         \<and> fst (choose_filling fm) \<noteq> type_filling req \<and> fm AND mode_flag (type_filling req) = 0"
proof -
  have p: "probes = probe_symbols symbol_info probe_list" and r: "type_filling req = ORDER_FILLING_FOK"
    using assms(4) by (auto simp: filling_script_def place_test_order_def test_request_def Let_def split: option.splits)
  have "(''EURUSD'', Some (decode_flags fm, choose_filling fm)) \<in> set probes"
    using assms(1) by (simp add: p probe_symbols_def probe_list_def)
  moreover have "fst (choose_filling fm) \<noteq> ORDER_FILLING_FOK"
    using assms(2,3) by (auto simp: choose_filling_def and_7_zero)
  ultimately show ?thesis using assms(2) r by simp
qed


text \<open>
  C26: the script opens the terminal session (initialise, log in) in every
  run; it raises \<open>AttributeError\<close> exactly when no price tick is available,
  and then ends without \<open>mt5.shutdown()\<close>, which it calls otherwise.
\<close>

theorem filling_main_session:
  assumes "filling_main symbol_info tick order_check = (calls, probes, res)"
  shows "take 2 calls = [Initialize, Login 102128591 ''MetaQuotes-Demo'']
         \<and> (res = Inl AttributeError \<longleftrightarrow> tick = None)
         \<and> (Shutdown \<in> set calls \<longleftrightarrow> tick \<noteq> None)"
  using assms
  by (auto simp: filling_main_def filling_script_def place_test_order_def Let_def
           split: option.splits sum.splits)

end
