(* ===== verification/Spec2Isabelle.thy ===== *)
theory Spec2Isabelle
  imports Run Report Filling
begin

text \<open>
  \<^bold>\<open>A verification model of the Monn monitoring agent.\<close>

  The repository has three Python scripts.  \<open>src/monitoring_agent.py\<close> is the
  only one with behaviour over time: a \<open>MonitoringAgent\<close> object polls, in a
  \<open>while True\<close> loop, whether a trading process runs (\<open>check_bot_process\<close>,
  via the Windows \<open>tasklist\<close> command) and the state of a MetaTrader 5 account
  (\<open>check_account_health\<close>, via the \<open>MetaTrader5\<close> package), compares the
  account with the previous poll, logs alerts, and keeps a shared error
  counter that raises a sustained-failure alert at a threshold.
  \<open>src/get_account_status.py\<close> prints an account report with trade statistics
  and \<open>src/test_filling_mode.py\<close> probes order filling modes; both run once.

  \<^bold>\<open>Theories.\<close>
  \<^item> \<open>Prelude\<close>: Python's behaviour the code relies on: exceptions as the
    \<open>Inl\<close> side of \<open>'a py_result\<close>, float division raising
    \<open>ZeroDivisionError\<close> (\<open>py_truediv\<close>), the substring test \<open>in\<close>
    (\<open>py_str_in\<close>, proved equal to the library's \<open>sublist\<close>); the collection
    \<open>model_defs\<close> of definitions unfolded to evaluate concrete cycles.
  \<^item> \<open>Environment\<close>: the interface to the collaborators.  Their answers in one
    cycle are the input \<open>cycle_env\<close> (the \<open>tasklist\<close> output, or \<open>None\<close> when
    \<open>subprocess.run\<close> raises; the results of \<open>mt5.initialize()\<close> and
    \<open>mt5.account_info()\<close>).  What the agent does to the world is a \<open>trace\<close>
    of \<open>effect\<close>s in program order: log records (one \<open>event\<close> constructor per
    \<open>logging\<close> call, carrying the formatted values), \<open>print\<close>s, calls of
    \<open>mt5.initialize\<close>/\<open>mt5.shutdown\<close>, the \<open>tasklist\<close> run and \<open>time.sleep\<close>.
  \<^item> \<open>Logging\<close>: the log sink of \<open>logging.basicConfig\<close> (lines 15--19):
    the numeric levels \<open>level_num\<close>, which make \<open>level\<close> an instance of
    \<open>linorder\<close>, the configuration \<open>agent_logging\<close>, the records a trace
    emits (\<open>log_records\<close>) and those the file receives (\<open>log_file\<close>).
  \<^item> \<open>Health\<close>: the state record \<open>agent\<close> (\<open>__init__\<close>, lines 22--26) and
    \<open>check_account_health\<close> (lines 28--77) split as the code is:
    \<open>pct_change\<close>, \<open>equity_change_alerts\<close> (lines 53--57), \<open>change_alerts\<close>
    (lines 49--57), \<open>margin_alerts\<close> (lines 60--61).  It also states the
    specification's Health Evaluator \<open>evaluate\<close> (spec 4.1) and the
    well-formedness \<open>agent_wf\<close>.
  \<^item> \<open>Liveness\<close>: \<open>check_bot_process\<close> (lines 79--94).
  \<^item> \<open>Loop\<close>: the counter update \<open>update_count\<close>, the alert \<open>alert_check\<close>, one
    loop body \<open>monitor_cycle\<close> (lines 103--121), the run \<open>monitor_cycles\<close>,
    \<open>monitor_loop\<close> (lines 96--125) and the entry point \<open>agent_main\<close>; the
    reachable states \<open>reachable\<close> as an inductive predicate.
  \<^item> \<open>Run\<close>: the loop as it runs, over an unbounded sequence of ticks
    (\<open>tick\<close>: a cycle's inputs, the interrupt in the sleep, or an interrupt
    inside the liveness or the account check, \<open>interrupted_cycle\<close>):
    \<open>run_ticks\<close> and \<open>monitor_loop_ticks\<close> (lines 96--125) as a
    \<open>partial_function (option)\<close>; the severities the specification assigns
    to log records (\<open>level_ok\<close>); the specification's counter machine
    (\<open>cycle_outcome\<close>, \<open>count_tick\<close>, \<open>decay\<close>).
  \<^item> \<open>Report\<close>: \<open>get_account_status.py\<close>: the exit paths of \<open>main\<close>
    (\<open>account_report\<close>), the tally of closing deals (\<open>tally_step\<close>,
    \<open>today_tally\<close>, \<open>win_rate\<close>, \<open>avg_per_trade\<close>), the seven-day table
    (\<open>by_symbol_add\<close>, \<open>week_step\<close>, \<open>week_stats\<close>) as an association list in
    dictionary insertion order, and the ranking \<open>symbol_ranking\<close>.
  \<^item> \<open>Filling\<close>: \<open>test_filling_mode.py\<close>: decoding the flag bits
    (\<open>decode_flags\<close>, with its inverse \<open>encode_flags\<close>), the choice
    \<open>choose_filling\<close>, the per-symbol probe \<open>probe_symbols\<close> over
    \<open>probe_list\<close>, the test order (\<open>test_request\<close>, \<open>place_test_order\<close>)
    the probe and order together (\<open>filling_script\<close>) and the whole script
    with its terminal session (\<open>terminal_call\<close>, \<open>filling_main\<close>).
  \<^item> this theory: the concrete collaborator answers used by the witnesses.

  \<^bold>\<open>State and effects.\<close>  The agent's fields are passed explicitly and
  returned updated.  A method that raises returns \<open>Inl\<close> with the effects it
  performed before raising; the agent is unchanged then, since the code
  mutates it only after the last point that can raise.

  \<^bold>\<open>The loop.\<close>  \<open>while True\<close> never ends by itself; its \<open>except\<close> only
  catches \<open>KeyboardInterrupt\<close>.  \<open>Run\<close> models it over an infinite sequence
  of ticks as a \<open>partial_function (option)\<close>, so that a run that never ends
  is the value \<open>None\<close>; no fuel is chosen.  It returns \<open>Some\<close> exactly when
  an interrupt comes (C24) or a cycle raises, and is \<open>None\<close> when neither
  happens (C25).  \<open>Loop\<close>'s \<open>monitor_loop\<close> runs over the finite list of
  cycles that complete before the operator interrupts in the last sleep; it
  recurses on that list, and the lemma \<open>monitor_loop_ticks_list\<close> shows it
  is the tick loop on that list followed by the interrupt.  An interrupt
  inside a cycle is summarised by \<open>interrupted_cycle\<close>, whose effects are
  proved a prefix of those of the complete cycle
  (\<open>interrupted_cycle_prefix\<close>).  Any other exception ends the run with
  \<open>Inl\<close> and no shutdown log.

  \<^bold>\<open>What the lemmas show.\<close>  One cycle: the counter moves once per check
  (C1), stays within two of its old value and non-negative (C15), the alert
  is logged exactly at the threshold (C6), the previous observation is
  replaced only on a successful read (C14), the effects come in program order
  (C16).  The health check refines the specification's \<open>evaluate\<close> (C3),
  raises exactly on a zero previous balance or equity (C4), and leaves the
  terminal open when it raises (C5).  Runs: the reachable states are well
  formed (C2); healthy cycles drain the counter (C7); failing cycles escalate
  (C8); an isolated failure never alerts (C9); the specification's
  three-cycle scenario gives counts 1, 1, 1 (C10); a zero-balance read
  crashes the agent (C11) and without one it never crashes (C12).  The
  liveness check accepts exactly outputs containing \<open>python.exe\<close> (C13).
  The report's tally is the sum and the counts of the closing deals (C17),
  the per-symbol table holds each symbol's sum and count (C18), the fused
  seven-day loop equals the today tally and a group-by-symbol in
  first-occurrence order (C28), the win rate is 100 exactly without a losing
  deal and 0 exactly without a winning one (C19), and \<open>main\<close> exits exactly
  on the two failures (C23).  The filling-mode choice reads only the three
  flag bits (C20), picks the lowest advertised mode (C21), and falls back to
  FOK exactly when none is advertised (C22); the flag decoding is lossless
  (C27); the test order requests FOK whatever the probe chose (C29); the
  script raises exactly when no price tick comes, and then skips
  \<open>mt5.shutdown()\<close> (C26).  The tick loop ends on any interrupt (C24) and
  never ends without one when no read is zero (C25); an interrupt inside the
  account check ends the run with the terminal left initialised (C30).  The
  counter after a whole run is the specification's decaying counter on the
  check outcomes (C31).  Every run of the tick loop that returns, including
  one cut inside a cycle, logs each record at the severity the specification
  designates for it, where it designates one (C32); under the configured
  level the log file of a run the operator stops holds all its records in
  order, from the start record to the stop record (C33).

  \<^bold>\<open>Not modelled.\<close>  Python floats are modelled as real numbers (no rounding,
  NaN or infinity); the timestamp and the \<open>mt5.last_error()\<close> text in
  log messages; the formatting of a log record; \<open>time.sleep\<close>'s duration
  (only the call and its argument are recorded); an interrupt arriving
  elsewhere than in the sleep, in \<open>subprocess.run\<close> or in the calls of
  \<open>mt5.initialize\<close>/\<open>mt5.account_info\<close> (for instance while logging).
  The MetaTrader5 package and \<open>tasklist\<close> are inputs, not modelled.
  In the two scripts, what is only printed (account fields, open positions,
  deal lines, flag lines and the MetaTrader constants) changes no state and
  is not modelled; the module imports (lines 1--13 of
  \<open>monitoring_agent.py\<close>) are represented only by the parameter
  \<open>mt5_loaded\<close> of the health check.  The specification's undefined margin
  level has no counterpart in the code, which tests the terminal's number
  (0 for an account without positions) against 100; this is recorded as a
  finding, not as a property.

  \<^bold>\<open>Plan.\<close>  Further work would strengthen existing statements: the counter
  refinement (C31) over tick runs cut inside a cycle, and the margin check
  with the terminal's answer for an account without positions as an
  explicit optional input.
\<close>

section \<open>Collaborator answers used by the witnesses\<close>

definition ai_ok :: account_info where
  "ai_ok = \<lparr>balance = 10000, equity = 10000, profit = 0, margin_level = 500\<rparr>"
definition ai_zero :: account_info where
  "ai_zero = \<lparr>balance = 0, equity = 0, profit = 0, margin_level = 0\<rparr>"
definition env_ok :: cycle_env where
  "env_ok = \<lparr>tasklist = Some ''python.exe'', mt5 = \<lparr>init_ok = True, account = Some ai_ok\<rparr>\<rparr>"
definition env_down :: cycle_env where
  "env_down = \<lparr>tasklist = None, mt5 = \<lparr>init_ok = False, account = None\<rparr>\<rparr>"
definition env_acct_down :: cycle_env where
  "env_acct_down = \<lparr>tasklist = Some ''python.exe'', mt5 = \<lparr>init_ok = False, account = None\<rparr>\<rparr>"
definition env_zero :: cycle_env where
  "env_zero = \<lparr>tasklist = Some ''python.exe'', mt5 = \<lparr>init_ok = True, account = Some ai_zero\<rparr>\<rparr>"

lemmas witness_defs = ai_ok_def ai_zero_def env_ok_def env_down_def env_acct_down_def env_zero_def


section \<open>Witnesses\<close>

theorem monitor_cycle_spec_witness:
  "check_bot_process (tasklist env_ok) = (True, [RunTasklist])
   \<and> check_account_health True (mt5 env_ok) init_agent =
       (Inr (True, init_agent\<lparr>last_balance := Some 10000, last_equity := Some 10000\<rparr>),
        [Mt5Initialize, Log INFO (Status 10000 10000 0 500), Mt5Shutdown])
   \<and> monitor_cycle True 300 env_ok init_agent =
       (Inr (init_agent\<lparr>last_balance := Some 10000, last_equity := Some 10000\<rparr>),
        [RunTasklist, Mt5Initialize, Log INFO (Status 10000 10000 0 500), Mt5Shutdown, Sleep 300])"
proof -
  have b: "check_bot_process (tasklist env_ok) = (True, [RunTasklist])"
    by (simp add: witness_defs model_defs)
  have h: "check_account_health True (mt5 env_ok) init_agent =
       (Inr (True, init_agent\<lparr>last_balance := Some 10000, last_equity := Some 10000\<rparr>),
        [Mt5Initialize, Log INFO (Status 10000 10000 0 500), Mt5Shutdown])"
    by (simp add: witness_defs model_defs)
  show ?thesis using monitor_cycle_spec [OF b h, of 300] b h by (simp add: model_defs)
qed

theorem reachable_agent_wf_witness:
  "reachable (init_agent\<lparr>error_count := 2\<rparr>) \<and> agent_wf (init_agent\<lparr>error_count := 2\<rparr>)
   \<and> alert_threshold (init_agent\<lparr>error_count := 2\<rparr>) = 5"
proof -
  have c: "monitor_cycle True 300 env_down init_agent = (Inr (init_agent\<lparr>error_count := 2\<rparr>),
      [RunTasklist, Log ERROR BotCheckError, Mt5Initialize, Log ERROR Mt5InitFailed, Sleep 300])"
    by (simp add: witness_defs model_defs)
  have r: "reachable (init_agent\<lparr>error_count := 2\<rparr>)"
    by (rule reachable.cycle [OF reachable.init c])
  show ?thesis using reachable_agent_wf [OF r] r by simp
qed

theorem check_account_health_refines_evaluate_witness:
  "check_account_health True \<lparr>init_ok = True, account = Some \<lparr>balance = 8900, equity = 8900, profit = -1100, margin_level = 95\<rparr>\<rparr>
     (init_agent\<lparr>last_balance := Some 10000, last_equity := Some 10000\<rparr>)
   = (Inr (True, init_agent\<lparr>last_balance := Some 8900, last_equity := Some 8900\<rparr>),
      [Mt5Initialize, Log WARNING (EquityChangeAlert (-11)), Log CRITICAL (EquityDrawdown (-11)),
       Log CRITICAL (MarginLevelAlert 95), Log INFO (Status 8900 8900 (-1100) 95), Mt5Shutdown])
   \<and> evaluate (Some 10000) 8900 (Some 95) = [SignificantMove, CriticalDrawdown, MarginCallRisk]"
proof -
  let ?r = "\<lparr>init_ok = True, account = Some \<lparr>balance = 8900, equity = 8900, profit = -1100, margin_level = 95\<rparr>\<rparr>"
  let ?a = "init_agent\<lparr>last_balance := Some 10000, last_equity := Some (10000::real)\<rparr>"
  have w: "agent_wf ?a" by (simp add: agent_wf_def init_agent_def)
  have h: "check_account_health True ?r ?a
   = (Inr (True, init_agent\<lparr>last_balance := Some 8900, last_equity := Some 8900\<rparr>),
      [Mt5Initialize, Log WARNING (EquityChangeAlert (-11)), Log CRITICAL (EquityDrawdown (-11)),
       Log CRITICAL (MarginLevelAlert 95), Log INFO (Status 8900 8900 (-1100) 95), Mt5Shutdown])"
    by (simp add: model_defs)
  from check_account_health_refines_evaluate [OF w _ h] h show ?thesis
    by (simp add: init_agent_def)
qed

theorem check_account_health_raises_witness:
  "fst (check_account_health True (mt5 env_ok) (init_agent\<lparr>last_balance := Some 0, last_equity := Some 0\<rparr>))
     = Inl ZeroDivisionError"
proof -
  have w: "agent_wf (init_agent\<lparr>last_balance := Some 0, last_equity := Some 0\<rparr>)"
    by (simp add: agent_wf_def init_agent_def)
  show ?thesis
    using check_account_health_raises [OF w, of "mt5 env_ok" ai_ok ZeroDivisionError]
    by (simp add: witness_defs init_agent_def)
qed

theorem check_account_health_session_witness:
  "Mt5Initialize \<in> set (snd (check_account_health True (mt5 env_ok) (init_agent\<lparr>last_balance := Some 0, last_equity := Some 0\<rparr>)))
   \<and> Mt5Shutdown \<notin> set (snd (check_account_health True (mt5 env_ok) (init_agent\<lparr>last_balance := Some 0, last_equity := Some 0\<rparr>)))"
proof -
  let ?a = "init_agent\<lparr>last_balance := Some 0, last_equity := Some (0::real)\<rparr>"
  obtain res es where h: "check_account_health True (mt5 env_ok) ?a = (res, es)" by fastforce
  moreover have "res = Inl ZeroDivisionError" using h by (simp add: witness_defs model_defs)
  ultimately show ?thesis using check_account_health_session [OF h] by simp
qed


theorem monitor_cycle_alert_logged_witness:
  "Log CRITICAL (ConsecutiveErrors 6)
     \<in> set (snd (monitor_cycle True 300 env_down (init_agent\<lparr>error_count := 4\<rparr>)))"
proof -
  have c: "monitor_cycle True 300 env_down (init_agent\<lparr>error_count := 4\<rparr>) =
     (Inr (init_agent\<lparr>error_count := 6\<rparr>),
      [RunTasklist, Log ERROR BotCheckError, Mt5Initialize, Log ERROR Mt5InitFailed,
       Log CRITICAL (ConsecutiveErrors 6), Sleep 300])"
    by (simp add: witness_defs model_defs)
  show ?thesis using monitor_cycle_alert_logged [OF c, of 6] c by (simp add: init_agent_def)
qed

theorem monitor_cycles_drain_witness:
  "\<exists>a' es. monitor_cycles True 300 [env_ok, env_ok] (init_agent\<lparr>error_count := 3\<rparr>) = (Inr a', es)
     \<and> error_count a' = 0"
proof -
  have "\<forall>env \<in> set [env_ok, env_ok]. healthy_env env"
    by (simp add: healthy_env_def witness_defs bot_image_def)
  moreover have "agent_wf (init_agent\<lparr>error_count := 3\<rparr>)" "nonzero_baseline (init_agent\<lparr>error_count := 3\<rparr>)"
    by (simp_all add: agent_wf_def nonzero_baseline_def init_agent_def)
  ultimately show ?thesis
    using monitor_cycles_drain [of "[env_ok, env_ok]" "init_agent\<lparr>error_count := 3\<rparr>" 300]
    by (simp add: init_agent_def)
qed

theorem monitor_cycles_failing_witness:
  "alerts_of (snd (monitor_cycles True 300 [env_down, env_down, env_down] init_agent)) = [6]
   \<and> alerts_of (snd (monitor_cycles True 300 [env_down, env_down] init_agent)) = []"
proof -
  have f: "\<not> fst (check_bot_process (tasklist env_down)) \<and> account_fails True env_down"
    by (simp add: witness_defs model_defs account_fails_def)
  have "[0..<3] = [0, 1, (2::nat)]" "[0..<2] = [0, (1::nat)]" by (simp_all add: upt_rec)
  then show ?thesis
    using monitor_cycles_failing [of "[env_down, env_down, env_down]" True 300 init_agent]
          monitor_cycles_failing [of "[env_down, env_down]" True 300 init_agent] f
    by (auto simp: init_agent_def)
qed

theorem isolated_failure_no_alert_witness:
  "monitor_cycles True 300 [env_down, env_ok] init_agent =
     (Inr (init_agent\<lparr>last_balance := Some 10000, last_equity := Some 10000\<rparr>),
      snd (monitor_cycles True 300 [env_down, env_ok] init_agent))
   \<and> alerts_of (snd (monitor_cycles True 300 [env_down, env_ok] init_agent)) = []"
proof -
  have r: "monitor_cycles True 300 [env_down, env_ok] init_agent =
     (Inr (init_agent\<lparr>last_balance := Some 10000, last_equity := Some 10000\<rparr>),
      snd (monitor_cycles True 300 [env_down, env_ok] init_agent))"
    by (simp add: witness_defs model_defs)
  have "healthy_env env_ok" by (simp add: healthy_env_def witness_defs bot_image_def)
  moreover have "agent_wf init_agent" by (simp add: agent_wf_def init_agent_def)
  ultimately show ?thesis
    using isolated_failure_no_alert [OF _ _ _ _ r] r by (simp add: init_agent_def)
qed

theorem monitor_cycles_bot_up_account_down_witness:
  "\<exists>a' es. monitor_cycles True 300 [env_acct_down, env_acct_down, env_acct_down] init_agent = (Inr a', es)
     \<and> error_count a' = 1 \<and> alerts_of es = []"
proof -
  have "fst (check_bot_process (tasklist env_acct_down)) \<and> account_fails True env_acct_down"
    by (simp add: witness_defs model_defs account_fails_def)
  then show ?thesis
    using monitor_cycles_bot_up_account_down [of "[env_acct_down, env_acct_down, env_acct_down]" True 300]
    by simp
qed

theorem monitor_loop_zero_balance_crash_witness:
  "\<exists>es. monitor_loop True 300 [env_zero, env_ok] init_agent = (Inl ZeroDivisionError, es)
     \<and> Log INFO AgentStopped \<notin> set es"
  using monitor_loop_zero_balance_crash [of init_agent env_zero ai_zero env_ok ai_ok 300 "[]"]
  by (simp add: witness_defs agent_wf_def nonzero_baseline_def init_agent_def)

theorem monitor_loop_no_crash_witness:
  "\<exists>a' es. monitor_loop True 300 [env_ok, env_down, env_ok] init_agent = (Inr a', es) \<and> agent_wf a'
     \<and> hd es = Log INFO AgentStarted \<and> last es = Print PrintStopped"
  using monitor_loop_no_crash [of "[env_ok, env_down, env_ok]" init_agent True 300]
  by (simp add: witness_defs nonzero_reads_def agent_wf_def nonzero_baseline_def init_agent_def)

theorem monitor_cycle_trace_order_witness:
  "hd (snd (monitor_cycle True 300 env_ok init_agent)) = RunTasklist
   \<and> last (snd (monitor_cycle True 300 env_ok init_agent)) = Sleep 300"
proof -
  obtain a' es where c: "monitor_cycle True 300 env_ok init_agent = (Inr a', es)"
    by (simp add: witness_defs model_defs)
  then show ?thesis using monitor_cycle_trace_order [OF c] by simp
qed

theorem monitor_cycle_snapshot_witness:
  "\<exists>a' es. monitor_cycle True 300 env_acct_down (init_agent\<lparr>last_balance := Some 10000, last_equity := Some 10000\<rparr>)
       = (Inr a', es) \<and> last_balance a' = Some 10000 \<and> last_equity a' = Some 10000"
proof -
  let ?a = "init_agent\<lparr>last_balance := Some 10000, last_equity := Some (10000::real)\<rparr>"
  obtain a' es where c: "monitor_cycle True 300 env_acct_down ?a = (Inr a', es)"
    by (simp add: witness_defs model_defs)
  have "account_fails True env_acct_down" by (simp add: account_fails_def witness_defs)
  with monitor_cycle_snapshot [OF c] c show ?thesis by (simp add: init_agent_def)
qed

theorem monitor_cycle_count_bounds_witness:
  "\<exists>a' es. monitor_cycle True 300 env_down init_agent = (Inr a', es)
     \<and> 0 \<le> error_count a' \<and> error_count a' \<le> 2"
proof -
  obtain a' es where c: "monitor_cycle True 300 env_down init_agent = (Inr a', es)"
    by (simp add: witness_defs model_defs)
  with monitor_cycle_count_bounds [OF c] show ?thesis by (simp add: init_agent_def)
qed

theorem choose_filling_supported_witness:
  "choose_filling 6 = (ORDER_FILLING_IOC, ''IOC'') \<and> (6::int) AND mode_flag ORDER_FILLING_IOC \<noteq> 0"
proof -
  have h: "(6::int) AND 7 \<noteq> 0" by simp
  have c: "choose_filling 6 = (ORDER_FILLING_IOC, ''IOC'')" by (simp add: choose_filling_def)
  show ?thesis using choose_filling_supported [OF h] c by simp
qed

theorem account_report_exit_witness:
  "account_report True False 0 [] [] = Inl (ExitNoAccount, True)
   \<and> shutdown_called (projr (account_report True True 2 [] []))"
proof -
  have "account_report True False 0 [] [] = Inl (ExitNoAccount, True)"
    using account_report_exit [of True False 0 "[]" "[]" "(ExitNoAccount, True)"] by simp
  moreover have "shutdown_called (projr (account_report True True 2 [] []))"
    using account_report_exit [of True True 2 "[]" "[]" _ "projr (account_report True True 2 [] [])"]
    by (simp add: account_report_def)
  ultimately show ?thesis by simp
qed

theorem monitor_loop_ticks_terminates_witness:
  "(\<forall>env. ticks_of [env_ok] 1 \<noteq> Cycle env)
   \<and> (\<exists>r. monitor_loop_ticks True 300 (ticks_of [env_ok]) init_agent = Some r)"
  using monitor_loop_ticks_terminates [of "ticks_of [env_ok]" 1 True 300 init_agent]
  by (simp add: ticks_of_def)

theorem monitor_loop_ticks_runs_forever_witness:
  "monitor_loop_ticks True 300 (\<lambda>n. Cycle env_ok) init_agent = None"
proof -
  have "\<forall>n. \<exists>env. (\<lambda>n. Cycle env_ok) n = Cycle env \<and> nonzero_reads env"
    by (simp add: nonzero_reads_def witness_defs)
  moreover have "agent_wf init_agent" "nonzero_baseline init_agent"
    by (simp_all add: agent_wf_def nonzero_baseline_def init_agent_def)
  ultimately show ?thesis
    using monitor_loop_ticks_runs_forever [of "\<lambda>n. Cycle env_ok" init_agent True 300] by simp
qed

theorem monitor_loop_ticks_interrupt_in_session_witness:
  "\<exists>a' pre. monitor_loop_ticks True 300
      (\<lambda>j. if j = 0 then Cycle env_ok else InterruptDuring AccountCheck env_ok) init_agent
      = Some (Inr a', pre @ [Mt5Initialize, Log INFO AgentStopped, Print PrintStopped])"
proof -
  let ?t = "\<lambda>j::nat. if j = 0 then Cycle env_ok else InterruptDuring AccountCheck env_ok"
  have "\<forall>j<1. \<exists>e. ?t j = Cycle e \<and> nonzero_reads e"
    by (simp add: nonzero_reads_def witness_defs)
  moreover have "agent_wf init_agent" "nonzero_baseline init_agent"
    by (simp_all add: agent_wf_def nonzero_baseline_def init_agent_def)
  ultimately show ?thesis
    using monitor_loop_ticks_interrupt_in_session [of ?t 1 env_ok init_agent 300] by simp
qed

theorem filling_test_ignores_probe_witness:
  "filling_script (\<lambda>s. Some 2) (Some 1) (\<lambda>r. Some (10030, ''Unsupported filling mode''))
     = (probe_symbols (\<lambda>s. Some 2) probe_list, Inr (test_request 1, CheckResult 10030 ''Unsupported filling mode''))
   \<and> fst (choose_filling 2) = ORDER_FILLING_IOC \<and> type_filling (test_request 1) = ORDER_FILLING_FOK"
proof -
  have s: "filling_script (\<lambda>s. Some 2) (Some 1) (\<lambda>r. Some (10030, ''Unsupported filling mode''))
     = (probe_symbols (\<lambda>s. Some 2) probe_list, Inr (test_request 1, CheckResult 10030 ''Unsupported filling mode''))"
    by (simp add: filling_script_def place_test_order_def)
  have "fst (choose_filling 2) \<noteq> type_filling (test_request 1)"
    using filling_test_ignores_probe [OF _ _ _ s, of 2] by simp
  then show ?thesis using s by (simp add: choose_filling_def test_request_def)
qed

theorem agent_main_count_witness:
  "\<exists>a' es. agent_main True [env_down, env_acct_down] = (Inr a', es) \<and> error_count a' = 2"
proof -
  obtain r es where h: "agent_main True [env_down, env_acct_down] = (r, es)" by fastforce
  have "\<exists>a'. r = Inr a'" using h by (simp add: model_defs witness_defs) (metis)
  then obtain a' where "r = Inr a'" ..
  with h have h': "agent_main True [env_down, env_acct_down] = (Inr a', es)" by simp
  from agent_main_count [OF h'] have "error_count a' = 2"
    by (simp add: cycle_outcome_def witness_defs count_tick_def)
  with h' show ?thesis by blast
qed

lemma ticks_of_ok_down:
  "monitor_loop_ticks True 300 (ticks_of [env_ok, env_down]) init_agent
     = Some (monitor_loop True 300 [env_ok, env_down] init_agent)"
  using run_ticks_list [of "[env_ok, env_down]" "ticks_of [env_ok, env_down]" 0 True 300 init_agent
     "[Log INFO AgentStarted, Print (PrintRunning 300), Print PrintPressCtrlC]"]
  by (auto simp: monitor_loop_ticks_def monitor_loop_def ticks_of_def nth_Cons' split: prod.splits sum.splits)

theorem monitor_loop_ticks_leveled_witness:
  "\<exists>r es. monitor_loop_ticks True 300 (ticks_of [env_ok, env_down]) init_agent = Some (r, es)
     \<and> list_all well_leveled es \<and> Log ERROR BotCheckError \<in> set es"
proof -
  obtain r es where e: "monitor_loop True 300 [env_ok, env_down] init_agent = (r, es)" by fastforce
  have h: "monitor_loop_ticks True 300 (ticks_of [env_ok, env_down]) init_agent = Some (r, es)"
    using ticks_of_ok_down e by simp
  have "Log ERROR BotCheckError \<in> set es" using e by (simp add: model_defs witness_defs) (metis list.set_intros)
  with monitor_loop_ticks_leveled [OF h] h show ?thesis by blast
qed

theorem monitor_loop_ticks_log_file_witness:
  "\<exists>a' es. monitor_loop_ticks True 300 (ticks_of [env_ok, env_down]) init_agent = Some (Inr a', es)
     \<and> hd (log_file agent_logging es) = (INFO, AgentStarted)
     \<and> last (log_file agent_logging es) = (INFO, AgentStopped)"
proof -
  obtain r es where e: "monitor_loop True 300 [env_ok, env_down] init_agent = (r, es)" by fastforce
  have "\<exists>a'. r = Inr a'" using e by (simp add: model_defs witness_defs) (metis)
  then obtain a' where "r = Inr a'" ..
  then have h: "monitor_loop_ticks True 300 (ticks_of [env_ok, env_down]) init_agent = Some (Inr a', es)"
    using ticks_of_ok_down e by simp
  with monitor_loop_ticks_log_file [OF h] show ?thesis by blast
qed

theorem filling_main_session_witness:
  "filling_main (\<lambda>s. Some 2) None (\<lambda>r. None)
     = ([Initialize, Login 102128591 ''MetaQuotes-Demo''], probe_symbols (\<lambda>s. Some 2) probe_list, Inl AttributeError)
   \<and> Shutdown \<notin> set [Initialize, Login 102128591 ''MetaQuotes-Demo'']"
proof -
  have h: "filling_main (\<lambda>s. Some 2) None (\<lambda>r. None)
     = ([Initialize, Login 102128591 ''MetaQuotes-Demo''], probe_symbols (\<lambda>s. Some 2) probe_list, Inl AttributeError)"
    by (simp add: filling_main_def filling_script_def place_test_order_def)
  show ?thesis using filling_main_session [OF h] h by simp
qed

theorem win_rate_extremes_witness:
  "win_rate (today_tally [\<lparr>ticket = 1, symbol = ''EURUSD'', deal_type = 0, volume = 1, price = 1, deal_profit = 5, entry = 1\<rparr>,
                          \<lparr>ticket = 2, symbol = ''EURUSD'', deal_type = 1, volume = 1, price = 1, deal_profit = 0, entry = 1\<rparr>])
     = Some 100"
proof -
  let ?ds = "[\<lparr>ticket = 1, symbol = ''EURUSD'', deal_type = 0, volume = 1, price = 1, deal_profit = 5::real, entry = 1\<rparr>,
              \<lparr>ticket = 2, symbol = ''EURUSD'', deal_type = 1, volume = 1, price = 1, deal_profit = 0, entry = 1\<rparr>]"
  obtain r where w: "win_rate (today_tally ?ds) = Some r"
    by (simp add: win_rate_def today_tally_def tally_step_def tally0_def)
  have "r = 100" using win_rate_extremes [OF w] by (simp add: exits_def)
  with w show ?thesis by simp
qed

end
